theory Spec2Isabelle
  imports Complex_Main
begin

section \<open>Tensors\<close>

text \<open>
  A tensor is its shape and its elements in row-major order. The script computes in
  32-bit floats; here the elements are real numbers, so rounding, infinities and NaN
  are outside the model.
\<close>

record tensor =
  shape :: "nat list"
  elems :: "real list"

datatype error =
    ValueError
  | AssertionError string
  | FileNotFoundError string
  | ZeroDivisionError
  | RuntimeError

text \<open>\<open>torch.zeros(d1, ..., dn)\<close>.\<close>

definition zeros :: "nat list \<Rightarrow> tensor" where
  "zeros sh = \<lparr>shape = sh, elems = replicate (prod_list sh) 0\<rparr>"

text \<open>
  \<open>a + b\<close> on tensors. Every sum the script forms is between tensors of one shape
  (the loader drops the last short batch, and a gradient has the shape of its input),
  so only that case computes; any other pair of shapes is reported as the framework's
  \<open>RuntimeError\<close>.
\<close>

definition tadd :: "tensor \<Rightarrow> tensor \<Rightarrow> error + tensor" where
  "tadd a b =
     (if shape a = shape b
      then Inr \<lparr>shape = shape a, elems = map2 (+) (elems a) (elems b)\<rparr>
      else Inl RuntimeError)"

text \<open>\<open>c * t\<close>, \<open>torch.sign(t)\<close> and \<open>torch.clamp(t, lo, hi)\<close>, all elementwise.\<close>

definition tscale :: "real \<Rightarrow> tensor \<Rightarrow> tensor" where
  "tscale c t = t\<lparr>elems := map (\<lambda>x. c * x) (elems t)\<rparr>"

definition tsign :: "tensor \<Rightarrow> tensor" where
  "tsign t = t\<lparr>elems := map sgn (elems t)\<rparr>"

definition clamp :: "real \<Rightarrow> real \<Rightarrow> real \<Rightarrow> real" where
  "clamp x lo hi = min (max x lo) hi"

definition tclamp :: "tensor \<Rightarrow> real \<Rightarrow> real \<Rightarrow> tensor" where
  "tclamp t lo hi = t\<lparr>elems := map (\<lambda>x. clamp x lo hi) (elems t)\<rparr>"

section \<open>Command line and attack configurations\<close>

record args =
  seed :: int
  momentum :: real
  weight_decay :: real
  epsilon :: real
  m :: int
  batch_size :: int
  resume :: "int option"
  datasets :: string

definition default_args :: args where
  "default_args =
     \<lparr>seed = 11111, momentum = 9 / 10, weight_decay = 5 / 10000, epsilon = 8 / 255,
      m = 8, batch_size = 128, resume = None, datasets = ''CIFAR10''\<rparr>"

text \<open>
  The attack objects of advertorch, as the script configures them. All three use
  \<open>nn.CrossEntropyLoss(reduction="sum")\<close> on the script's one network; what is kept
  here are the keyword arguments.
\<close>

datatype attack =
    LinfPGDAttack (eps: real) (nb_iter: nat) (eps_iter: real) (rand_init: bool)
      (clip_min: real) (clip_max: real) (targeted: bool)
  | FGSM (eps: real) (clip_min: real) (clip_max: real) (targeted: bool)

definition adversary :: attack where
  "adversary = LinfPGDAttack (8 / 255) 20 (2 / 255) True 0 1 False"

definition adversary_50 :: attack where
  "adversary_50 = LinfPGDAttack (8 / 255) 50 (2 / 255) True 0 1 False"

definition adversary_FGSM :: attack where
  "adversary_FGSM = FGSM (8 / 255) 0 1 False"

datatype dataset = CIFAR10 | CIFAR100

text \<open>
  The immutable globals the script's functions read, as lines 58 to 107 build them from
  the parsed arguments.
\<close>

record env =
  env_args :: args
  env_dataset :: dataset
  number_classes :: nat
  env_epsilon :: real
  env_m :: int
  env_adversary :: attack
  env_adversary_50 :: attack
  env_adversary_FGSM :: attack

definition build_env :: "args \<Rightarrow> env" where
  "build_env a =
     \<lparr>env_args = a,
      env_dataset = (if datasets a = ''CIFAR10'' then CIFAR10 else CIFAR100),
      number_classes = (if datasets a = ''CIFAR10'' then 10 else 100),
      env_epsilon = epsilon a,
      env_m = m a,
      env_adversary = adversary,
      env_adversary_50 = adversary_50,
      env_adversary_FGSM = adversary_FGSM\<rparr>"

section \<open>The numeric framework\<close>

text \<open>
  The script is glue over torch, torchvision and advertorch. What those libraries
  compute is a parameter of the model: \<open>'w\<close> is the network object (parameters, their
  \<open>.grad\<close> fields, batch-norm buffers, train/eval mode), \<open>'o\<close> the optimizer, \<open>'sd\<close> a
  state dict and \<open>'r\<close> the state of the random number generator. A batch is an input
  tensor with its integer labels.
\<close>

type_synonym batch = "tensor \<times> nat list"

record ('w, 'o, 'sd, 'r) framework =
  fw_manual_seed :: "int \<Rightarrow> 'r"
  fw_PreActResNet18 :: "nat \<Rightarrow> 'r \<Rightarrow> 'w \<times> 'r"
  fw_SGD :: "'w \<Rightarrow> real \<Rightarrow> real \<Rightarrow> real \<Rightarrow> 'o"
  fw_set_lr :: "real \<Rightarrow> 'o \<Rightarrow> 'o"
  fw_train_mode :: "'w \<Rightarrow> 'w"
  fw_eval_mode :: "'w \<Rightarrow> 'w"
  fw_zero_grad :: "'w \<Rightarrow> 'w"
  fw_forward :: "'w \<Rightarrow> tensor \<Rightarrow> tensor \<times> 'w"
  fw_cross_entropy :: "tensor \<Rightarrow> nat list \<Rightarrow> real"
  fw_backward :: "'w \<Rightarrow> tensor \<Rightarrow> nat list \<Rightarrow> 'w \<times> tensor"
  fw_step :: "'o \<Rightarrow> 'w \<Rightarrow> 'o \<times> 'w"
  fw_argmax :: "tensor \<Rightarrow> nat list"
  fw_perturb :: "attack \<Rightarrow> 'w \<Rightarrow> tensor \<Rightarrow> nat list \<Rightarrow> 'r \<Rightarrow> tensor \<times> 'w \<times> 'r"
  fw_state_dict :: "'w \<Rightarrow> 'sd"
  fw_load_state_dict :: "'sd \<Rightarrow> 'w \<Rightarrow> 'w"
  fw_trainloader :: "dataset \<Rightarrow> nat \<Rightarrow> 'r \<Rightarrow> batch list \<times> 'r"
  fw_testloader :: "dataset \<Rightarrow> nat \<Rightarrow> batch list"

text \<open>
  \<open>fw_backward n x t\<close> is \<open>loss.backward()\<close> for the loss of the forward pass of \<open>n\<close> on
  \<open>x\<close> with labels \<open>t\<close>: the network with its \<open>.grad\<close> fields filled, and \<open>x.grad\<close>.
  Automatic differentiation gives \<open>x.grad\<close> the shape of \<open>x\<close>.
\<close>

definition grad_has_input_shape :: "('w, 'o, 'sd, 'r) framework \<Rightarrow> bool" where
  "grad_has_input_shape fw = (\<forall>n x t. shape (snd (fw_backward fw n x t)) = shape x)"

section \<open>The mutable state of the script\<close>

record ('sd, 'r) checkpoint =
  ck_net :: 'sd
  ck_acc :: real
  ck_epoch :: int
  ck_rng_state :: 'r

text \<open>
  The trace lists, in program order, the calls into the framework that the training
  protocol consists of; \<open>Forward\<close> carries the tensor the network was applied to.
\<close>

datatype event =
    ZeroGrad
  | Forward tensor
  | CrossEntropy
  | Backward
  | OptimizerStep
  | SignAscent
  | Clamp
  | Perturb attack
  | Mkdir string
  | TorchSave string
  | TorchLoad string

record ('w, 'o, 'sd, 'r) state =
  net :: 'w
  optimizer :: 'o
  delta :: tensor
  max_acc :: real
  rng :: 'r
  dirs :: "string set"
  files :: "string \<rightharpoonup> ('sd, 'r) checkpoint"
  trace :: "event list"

text \<open>The accumulators \<open>train_loss\<close>, \<open>correct\<close> and \<open>total\<close> of \<open>train\<close>.\<close>

record counters =
  train_loss :: real
  correct :: nat
  total :: nat

definition no_counts :: counters where
  "no_counts = \<lparr>train_loss = 0, correct = 0, total = 0\<rparr>"

text \<open>\<open>predicted.eq(targets).sum().item()\<close>.\<close>

definition eq_count :: "nat list \<Rightarrow> nat list \<Rightarrow> nat" where
  "eq_count predicted targets = length (filter (\<lambda>(p, t). p = t) (zip predicted targets))"

section \<open>The training step\<close>

text \<open>
  The body of \<open>for i in range(m)\<close> in \<open>train\<close> (lines 188 to 203), one statement per
  binding. The progress-bar text is not modelled.
\<close>

definition inner_iteration ::
  "('w, 'o, 'sd, 'r) framework \<Rightarrow> env \<Rightarrow> batch \<Rightarrow>
   ('w, 'o, 'sd, 'r) state \<times> counters \<Rightarrow> error + (('w, 'o, 'sd, 'r) state \<times> counters)" where
  "inner_iteration fw e b sc =
     (case (b, sc) of ((inputs, targets), (st, c)) \<Rightarrow>
      let net1 = fw_zero_grad fw (net st) in
      case tadd inputs (delta st) of
        Inl err \<Rightarrow> Inl err
      | Inr adv \<Rightarrow>
          let (outputs, net2) = fw_forward fw net1 adv;
              loss = fw_cross_entropy fw outputs targets;
              (net3, grad) = fw_backward fw net2 adv targets;
              (opt1, net4) = fw_step fw (optimizer st) net3
          in case tadd (delta st) (tscale (env_epsilon e) (tsign grad)) of
               Inl err \<Rightarrow> Inl err
             | Inr d \<Rightarrow>
                 Inr (st\<lparr>net := net4, optimizer := opt1,
                         delta := tclamp d (- env_epsilon e) (env_epsilon e),
                         trace := trace st @
                           [ZeroGrad, Forward adv, CrossEntropy, Backward, OptimizerStep,
                            SignAscent, Clamp]\<rparr>,
                      c\<lparr>train_loss := train_loss c + loss,
                        total := total c + length targets,
                        correct := correct c + eq_count (fw_argmax fw outputs) targets\<rparr>))"

section \<open>Loops\<close>

text \<open>A \<open>for\<close> loop whose body may raise: the first error ends the loop.\<close>

fun for_each :: "('a \<Rightarrow> 's \<Rightarrow> error + 's) \<Rightarrow> 'a list \<Rightarrow> 's \<Rightarrow> error + 's" where
  "for_each body [] s = Inr s"
| "for_each body (x # xs) s =
     (case body x s of Inl err \<Rightarrow> Inl err | Inr s' \<Rightarrow> for_each body xs s')"

text \<open>\<open>range(n)\<close> and \<open>range(a, b)\<close> on Python integers: empty when \<open>n \<le> 0\<close>, \<open>b \<le> a\<close>.\<close>

definition py_range :: "int \<Rightarrow> int list" where
  "py_range n = [0..n - 1]"

definition py_range2 :: "int \<Rightarrow> int \<Rightarrow> int list" where
  "py_range2 a b = [a..b - 1]"

text \<open>Lines 185 to 203: the \<open>m\<close> inner iterations on one batch, and the loop over the batches.\<close>

definition train_batch ::
  "('w, 'o, 'sd, 'r) framework \<Rightarrow> env \<Rightarrow> batch \<Rightarrow>
   ('w, 'o, 'sd, 'r) state \<times> counters \<Rightarrow> error + (('w, 'o, 'sd, 'r) state \<times> counters)" where
  "train_batch fw e b sc = for_each (\<lambda>i. inner_iteration fw e b) (py_range (env_m e)) sc"

definition train_batches ::
  "('w, 'o, 'sd, 'r) framework \<Rightarrow> env \<Rightarrow> batch list \<Rightarrow>
   ('w, 'o, 'sd, 'r) state \<times> counters \<Rightarrow> error + (('w, 'o, 'sd, 'r) state \<times> counters)" where
  "train_batches fw e batches sc = for_each (train_batch fw e) batches sc"

section \<open>Evaluation under an attack\<close>

text \<open>
  \<open>test\<close>, \<open>test_50\<close> and \<open>test_fgsm\<close> (lines 110 to 174) are one text up to the attack
  object they call; \<open>run_test\<close> is that text with the attack as a parameter. The test
  loader does not shuffle, so it reads no random state. The printed line is not modelled;
  \<open>epoch\<close> is used for nothing else.
\<close>

definition test_batch ::
  "('w, 'o, 'sd, 'r) framework \<Rightarrow> attack \<Rightarrow> ('w, 'o, 'sd, 'r) state \<times> nat \<times> nat \<Rightarrow> batch \<Rightarrow>
   ('w, 'o, 'sd, 'r) state \<times> nat \<times> nat" where
  "test_batch fw atk s b =
     (case (s, b) of ((st, n_correct, n_total), (inputs, targets)) \<Rightarrow>
      let (adv, net1, rng1) = fw_perturb fw atk (net st) inputs targets (rng st);
          (outputs, net2) = fw_forward fw net1 adv;
          predicted = fw_argmax fw outputs
      in (st\<lparr>net := net2, rng := rng1, trace := trace st @ [Perturb atk, Forward adv]\<rparr>,
          n_correct + eq_count predicted targets,
          n_total + length targets))"

definition testloader :: "('w, 'o, 'sd, 'r) framework \<Rightarrow> env \<Rightarrow> batch list" where
  "testloader fw e = fw_testloader fw (env_dataset e) (nat (batch_size (env_args e)))"

definition run_test ::
  "('w, 'o, 'sd, 'r) framework \<Rightarrow> env \<Rightarrow> attack \<Rightarrow> int \<Rightarrow> ('w, 'o, 'sd, 'r) state \<Rightarrow>
   error + (real \<times> ('w, 'o, 'sd, 'r) state)" where
  "run_test fw e atk epoch st =
     (case foldl (test_batch fw atk) (st\<lparr>net := fw_eval_mode fw (net st)\<rparr>, 0, 0) (testloader fw e) of
        (st1, n_correct, n_total) \<Rightarrow>
          if n_total = 0 then Inl ZeroDivisionError
          else Inr (100 * real n_correct / real n_total, st1))"

definition test ::
  "('w, 'o, 'sd, 'r) framework \<Rightarrow> env \<Rightarrow> int \<Rightarrow> ('w, 'o, 'sd, 'r) state \<Rightarrow>
   error + (real \<times> ('w, 'o, 'sd, 'r) state)" where
  "test fw e epoch st = run_test fw e (env_adversary e) epoch st"

definition test_50 ::
  "('w, 'o, 'sd, 'r) framework \<Rightarrow> env \<Rightarrow> int \<Rightarrow> ('w, 'o, 'sd, 'r) state \<Rightarrow>
   error + (real \<times> ('w, 'o, 'sd, 'r) state)" where
  "test_50 fw e epoch st = run_test fw e (env_adversary_50 e) epoch st"

definition test_fgsm ::
  "('w, 'o, 'sd, 'r) framework \<Rightarrow> env \<Rightarrow> int \<Rightarrow> ('w, 'o, 'sd, 'r) state \<Rightarrow>
   error + (real \<times> ('w, 'o, 'sd, 'r) state)" where
  "test_fgsm fw e epoch st = run_test fw e (env_adversary_FGSM e) epoch st"

section \<open>One epoch\<close>

definition best_path :: "env \<Rightarrow> string" where
  "best_path e = ''./checkpoint/best'' @ datasets (env_args e)"

text \<open>
  Lines 213 to 222, the body of \<open>if max_acc < tmp_acc\<close> after the assignment to
  \<open>max_acc\<close>. The file system is the set of directories and the checkpoint stored under
  each file name.
\<close>

definition save_best ::
  "('w, 'o, 'sd, 'r) framework \<Rightarrow> env \<Rightarrow> real \<Rightarrow> int \<Rightarrow> ('w, 'o, 'sd, 'r) state \<Rightarrow>
   ('w, 'o, 'sd, 'r) state" where
  "save_best fw e acc epoch st =
     (let ck = \<lparr>ck_net = fw_state_dict fw (net st), ck_acc = acc, ck_epoch = epoch,
                ck_rng_state = rng st\<rparr>;
          st1 = (if ''checkpoint'' \<in> dirs st then st
                 else st\<lparr>dirs := insert ''checkpoint'' (dirs st),
                         trace := trace st @ [Mkdir ''checkpoint'']\<rparr>)
      in st1\<lparr>files := (files st1)(best_path e \<mapsto> ck),
             trace := trace st1 @ [TorchSave (best_path e)]\<rparr>)"

definition trainloader ::
  "('w, 'o, 'sd, 'r) framework \<Rightarrow> env \<Rightarrow> 'r \<Rightarrow> batch list \<times> 'r" where
  "trainloader fw e r = fw_trainloader fw (env_dataset e) (nat (batch_size (env_args e))) r"

text \<open>
  Lines 176 to 205: the training part of \<open>train\<close>, up to \<open>acc\<close>. Python raises
  \<open>ZeroDivisionError\<close> at \<open>100.*correct/total\<close> when no inner iteration has run.
\<close>

definition train_part ::
  "('w, 'o, 'sd, 'r) framework \<Rightarrow> env \<Rightarrow> ('w, 'o, 'sd, 'r) state \<Rightarrow>
   error + (('w, 'o, 'sd, 'r) state \<times> real)" where
  "train_part fw e st =
     (case trainloader fw e (rng st) of
        (batches, rng1) \<Rightarrow>
          (case train_batches fw e batches
                  (st\<lparr>net := fw_train_mode fw (net st), rng := rng1\<rparr>, no_counts) of
             Inl err \<Rightarrow> Inl err
           | Inr (st1, c) \<Rightarrow>
               if total c = 0 then Inl ZeroDivisionError
               else Inr (st1, 100 * real (correct c) / real (total c))))"

text \<open>\<open>train\<close>, lines 176 to 223. The local \<open>best_acc\<close> of line 223 is never read.\<close>

definition train ::
  "('w, 'o, 'sd, 'r) framework \<Rightarrow> env \<Rightarrow> int \<Rightarrow> ('w, 'o, 'sd, 'r) state \<Rightarrow>
   error + ('w, 'o, 'sd, 'r) state" where
  "train fw e epoch st =
     (case train_part fw e st of
        Inl err \<Rightarrow> Inl err
      | Inr (st1, acc) \<Rightarrow>
          (case test fw e epoch st1 of
             Inl err \<Rightarrow> Inl err
           | Inr (tmp_acc, st2) \<Rightarrow>
               if max_acc st2 < tmp_acc
               then Inr (save_best fw e acc epoch (st2\<lparr>max_acc := tmp_acc\<rparr>))
               else Inr st2))"

definition adjust_learning_rate ::
  "('w, 'o, 'sd, 'r) framework \<Rightarrow> int \<Rightarrow> ('w, 'o, 'sd, 'r) state \<Rightarrow> ('w, 'o, 'sd, 'r) state" where
  "adjust_learning_rate fw epoch st =
     (let lr = (if epoch < 12 then 1 / 10
                else if epoch \<ge> 12 \<and> epoch < 22 then 1 / 100
                else 1 / 1000)
      in st\<lparr>optimizer := fw_set_lr fw lr (optimizer st)\<rparr>)"

section \<open>The script\<close>

text \<open>\<open>'{}'.format(k)\<close> for an integer.\<close>

fun str_nat :: "nat \<Rightarrow> string" where
  "str_nat n =
     (if n < 10 then [char_of (48 + n)]
      else str_nat (n div 10) @ [char_of (48 + n mod 10)])"

declare str_nat.simps [simp del]

definition str_int :: "int \<Rightarrow> string" where
  "str_int k = (if k < 0 then CHR ''-'' # str_nat (nat (- k)) else str_nat (nat k))"

text \<open>
  Lines 37 to 107 and 236: everything before the epoch loop. \<open>DataLoader\<close> refuses a
  batch size that is not positive with a \<open>ValueError\<close>. The result is \<open>start_epoch\<close>
  and the initial state.
\<close>

definition startup ::
  "('w, 'o, 'sd, 'r) framework \<Rightarrow> args \<Rightarrow> string set \<Rightarrow> (string \<rightharpoonup> ('sd, 'r) checkpoint) \<Rightarrow>
   error + (int \<times> ('w, 'o, 'sd, 'r) state)" where
  "startup fw a dirs0 files0 =
     (if batch_size a \<le> 0 then Inl ValueError
      else
        case fw_PreActResNet18 fw (number_classes (build_env a)) (fw_manual_seed fw (seed a)) of
          (net0, rng1) \<Rightarrow>
            (case
               (case resume a of
                  None \<Rightarrow> Inr (0, net0, rng1, [])
                | Some k \<Rightarrow>
                    if ''checkpoint'' \<notin> dirs0
                    then Inl (AssertionError ''Error: no checkpoint directory found!'')
                    else
                      (case files0 (''./checkpoint/ckpt.'' @ str_int k) of
                         None \<Rightarrow> Inl (FileNotFoundError (''./checkpoint/ckpt.'' @ str_int k))
                       | Some ck \<Rightarrow>
                           Inr (ck_epoch ck + 1, fw_load_state_dict fw (ck_net ck) net0,
                                ck_rng_state ck, [TorchLoad (''./checkpoint/ckpt.'' @ str_int k)])))
             of
               Inl err \<Rightarrow> Inl err
             | Inr (start_epoch, net1, rng2, tr) \<Rightarrow>
                 Inr (start_epoch,
                      \<lparr>net = net1,
                       optimizer = fw_SGD fw net1 (1 / 10) (momentum a) (weight_decay a),
                       delta = zeros [nat (batch_size a), 3, 32, 32],
                       max_acc = 0, rng = rng2, dirs = dirs0, files = files0, trace = tr\<rparr>)))"

text \<open>Lines 238 to 240.\<close>

definition epoch_loop ::
  "('w, 'o, 'sd, 'r) framework \<Rightarrow> env \<Rightarrow> int list \<Rightarrow> ('w, 'o, 'sd, 'r) state \<Rightarrow>
   error + ('w, 'o, 'sd, 'r) state" where
  "epoch_loop fw e epochs st =
     for_each (\<lambda>epoch s. train fw e epoch (adjust_learning_rate fw epoch s)) epochs st"

text \<open>Lines 242 to 249; the loop over \<open>[1]\<close> runs its body once.\<close>

definition final_eval ::
  "('w, 'o, 'sd, 'r) framework \<Rightarrow> env \<Rightarrow> ('w, 'o, 'sd, 'r) state \<Rightarrow>
   error + ('w, 'o, 'sd, 'r) state" where
  "final_eval fw e st =
     (case files st (best_path e) of
        None \<Rightarrow> Inl (FileNotFoundError (best_path e))
      | Some ck \<Rightarrow>
          (case test fw e 111
                  (st\<lparr>net := fw_eval_mode fw (fw_load_state_dict fw (ck_net ck) (net st)),
                      trace := trace st @ [TorchLoad (best_path e)]\<rparr>) of
             Inl err \<Rightarrow> Inl err
           | Inr (a1, st1) \<Rightarrow>
               (case test_50 fw e 111 st1 of
                  Inl err \<Rightarrow> Inl err
                | Inr (a2, st2) \<Rightarrow>
                    (case test_fgsm fw e 111 st2 of
                       Inl err \<Rightarrow> Inl err
                     | Inr (a3, st3) \<Rightarrow> Inr st3))))"

definition main ::
  "('w, 'o, 'sd, 'r) framework \<Rightarrow> args \<Rightarrow> string set \<Rightarrow> (string \<rightharpoonup> ('sd, 'r) checkpoint) \<Rightarrow>
   error + ('w, 'o, 'sd, 'r) state" where
  "main fw a dirs0 files0 =
     (case startup fw a dirs0 files0 of
        Inl err \<Rightarrow> Inl err
      | Inr (start_epoch, st0) \<Rightarrow>
          (case epoch_loop fw (build_env a) (py_range2 start_epoch 27) st0 of
             Inl err \<Rightarrow> Inl err
           | Inr st1 \<Rightarrow> final_eval fw (build_env a) st1))"

section \<open>Observations on tensors and traces\<close>

text \<open>Every element of a tensor lies in the closed interval from \<open>lo\<close> to \<open>hi\<close>.\<close>

definition elems_between :: "real \<Rightarrow> real \<Rightarrow> tensor \<Rightarrow> bool" where
  "elems_between lo hi t = list_all (\<lambda>x. lo \<le> x \<and> x \<le> hi) (elems t)"

text \<open>The attacks a trace evaluated the network under, and the files it saved, in order.\<close>

definition attacks_of :: "event list \<Rightarrow> attack list" where
  "attacks_of tr = concat (map (\<lambda>ev. case ev of Perturb atk \<Rightarrow> [atk] | _ \<Rightarrow> []) tr)"

definition saves_of :: "event list \<Rightarrow> string list" where
  "saves_of tr = concat (map (\<lambda>ev. case ev of TorchSave path \<Rightarrow> [path] | _ \<Rightarrow> []) tr)"

text \<open>What the training of a batch leaves alone: everything but the network, the optimizer, the
  values of the buffer and the trace of training calls.\<close>

definition same_outside_training ::
  "('w, 'o, 'sd, 'r) state \<Rightarrow> ('w, 'o, 'sd, 'r) state \<Rightarrow> bool" where
  "same_outside_training st st' \<longleftrightarrow>
     max_acc st' = max_acc st \<and> rng st' = rng st \<and> dirs st' = dirs st \<and> files st' = files st \<and>
     attacks_of (trace st') = attacks_of (trace st) \<and> saves_of (trace st') = saves_of (trace st) \<and>
     shape (delta st') = shape (delta st)"

text \<open>
  One pass of the epoch loop from \<open>s\<close> to \<open>s'\<close>, seen from outside: the learning rate
  is adjusted, the training part returns a training accuracy, the PGD-20 evaluation
  returns the accuracy \<open>tmp\<close>, neither has touched the files or the running maximum, and
  the checkpoint is saved exactly when \<open>tmp\<close> is above the running maximum.
\<close>

definition epoch_step ::
  "('w, 'o, 'sd, 'r) framework \<Rightarrow> env \<Rightarrow> int \<Rightarrow> ('w, 'o, 'sd, 'r) state \<Rightarrow> real \<Rightarrow>
   ('w, 'o, 'sd, 'r) state \<Rightarrow> bool" where
  "epoch_step fw e ep s tmp s' \<longleftrightarrow>
     (\<exists>st1 acc st2.
        train_part fw e (adjust_learning_rate fw ep s) = Inr (st1, acc) \<and>
        run_test fw e (env_adversary e) ep st1 = Inr (tmp, st2) \<and>
        files st2 = files s \<and> dirs st2 = dirs s \<and>
        saves_of (trace st2) = saves_of (trace s) \<and> max_acc st2 = max_acc s \<and>
        s' = (if max_acc s < tmp
              then save_best fw e acc ep (st2\<lparr>max_acc := tmp\<rparr>) else st2))"

text \<open>
  What evaluating the network of \<open>st\<close> under an attack means: the network is put in
  evaluation mode; then, over the test batches in order, the attack perturbs the batch
  against the current network, the network is applied to the perturbed batch, and the
  predictions that equal the labels are counted. The accuracy is the percentage of
  correct predictions, and \<open>st'\<close> is the state the last batch leaves.
\<close>

definition evaluated_under ::
  "('w, 'o, 'sd, 'r) framework \<Rightarrow> batch list \<Rightarrow> attack \<Rightarrow> ('w, 'o, 'sd, 'r) state \<Rightarrow> real \<Rightarrow>
   ('w, 'o, 'sd, 'r) state \<Rightarrow> bool" where
  "evaluated_under fw batches atk st acc st' \<longleftrightarrow>
     (\<exists>T. length T = Suc (length batches) \<and>
        T ! 0 = (st\<lparr>net := fw_eval_mode fw (net st)\<rparr>, 0, 0) \<and>
        (\<forall>j<length batches.
           case (batches ! j, T ! j) of
             ((inputs, targets), (s, k, n)) \<Rightarrow>
               let (adv, net1, rng1) = fw_perturb fw atk (net s) inputs targets (rng s);
                   (outputs, net2) = fw_forward fw net1 adv
               in T ! Suc j =
                    (s\<lparr>net := net2, rng := rng1,
                       trace := trace s @ [Perturb atk, Forward adv]\<rparr>,
                     k + eq_count (fw_argmax fw outputs) targets,
                     n + length targets)) \<and>
        (case T ! length batches of
           (s, k, n) \<Rightarrow> s = st' \<and> n \<noteq> 0 \<and> acc = 100 * real k / real n))"

section \<open>A small instance of the framework\<close>

text \<open>
  To run the script on concrete inputs the framework is instantiated with a network of
  one weight whose input gradient is \<open>x - 1/2\<close> elementwise, an identity attack, and
  loaders that yield constant images: one training batch of ones and one of zeros.
\<close>

definition const_image :: "nat \<Rightarrow> real \<Rightarrow> tensor" where
  "const_image n v = \<lparr>shape = [n, 3, 32, 32], elems = replicate (prod_list [n, 3, 32, 32]) v\<rparr>"

definition toy_fw :: "(real \<times> real, real, real, int) framework" where
  "toy_fw =
     \<lparr>fw_manual_seed = (\<lambda>s. s),
      fw_PreActResNet18 = (\<lambda>k r. ((1, 0), r + 1)),
      fw_SGD = (\<lambda>n lr mo wd. lr),
      fw_set_lr = (\<lambda>lr opt. lr),
      fw_train_mode = (\<lambda>n. n),
      fw_eval_mode = (\<lambda>n. n),
      fw_zero_grad = (\<lambda>n. (fst n, 0)),
      fw_forward = (\<lambda>n x. (x, n)),
      fw_cross_entropy = (\<lambda>out t. sum_list (elems out)),
      fw_backward = (\<lambda>n x t. ((fst n, snd n + 1), x\<lparr>elems := map (\<lambda>v. v - 1 / 2) (elems x)\<rparr>)),
      fw_step = (\<lambda>lr n. (lr, (fst n - lr * snd n, snd n))),
      fw_argmax = (\<lambda>out. case shape out of [] \<Rightarrow> [] | n # sh \<Rightarrow> replicate n 1),
      fw_perturb = (\<lambda>atk n x t r. (x, n, r + 1)),
      fw_state_dict = fst,
      fw_load_state_dict = (\<lambda>sd n. (sd, snd n)),
      fw_trainloader =
        (\<lambda>d n r. ([(const_image n 1, replicate n 1), (const_image n 0, replicate n 0)], r + 1)),
      fw_testloader = (\<lambda>d n. [(const_image n 1, replicate n 1)])\<rparr>"

definition toy_args :: args where
  "toy_args = default_args\<lparr>m := 3, batch_size := 1\<rparr>"

definition toy_st0 :: "(real \<times> real, real, real, int) state" where
  "toy_st0 =
     \<lparr>net = (1, 0), optimizer = 1 / 10, delta = zeros [1, 3, 32, 32], max_acc = 0,
      rng = 11112, dirs = {}, files = Map.empty, trace = []\<rparr>"

text \<open>
  A run resumed from the checkpoint of epoch 25: it trains epoch 26 and then runs the
  final evaluation. No best checkpoint is on disk before it.
\<close>

definition toy_ckpt :: "(real, int) checkpoint" where
  "toy_ckpt = \<lparr>ck_net = 2 / 5, ck_acc = 50, ck_epoch = 25, ck_rng_state = 11200\<rparr>"

definition toy_resume_args :: args where
  "toy_resume_args = toy_args\<lparr>resume := Some 25\<rparr>"

definition toy_resume_files :: "string \<rightharpoonup> (real, int) checkpoint" where
  "toy_resume_files = [''./checkpoint/ckpt.25'' \<mapsto> toy_ckpt]"

section \<open>Starting the small instance\<close>

lemma toy_grad_shape: "grad_has_input_shape toy_fw"
  by (simp add: grad_has_input_shape_def toy_fw_def)

lemma tadd_same_shape:
  "shape a = shape b \<Longrightarrow> tadd a b = Inr \<lparr>shape = shape a, elems = map2 (+) (elems a) (elems b)\<rparr>"
  by (simp add: tadd_def)

lemma toy_startup: "startup toy_fw toy_args {} Map.empty = Inr (0, toy_st0)"
  by (simp add: startup_def toy_args_def default_args_def toy_fw_def build_env_def toy_st0_def)

section \<open>The buffer update\<close>

text \<open>
  C1. In every inner training step whose batch has the buffer's shape, the step returns
  and the new buffer is, elementwise, \<open>clamp(delta + epsilon * sign(grad), -epsilon,
  +epsilon)\<close>, where \<open>grad\<close> is the gradient with respect to the adversarial input
  \<open>inputs + delta\<close> from this step's backward pass and \<open>epsilon\<close> is the \<open>--epsilon\<close>
  argument, 8/255 by default.
\<close>

theorem buffer_update_is_clamped_sign_ascent:
  assumes sh: "shape inputs = shape (delta st)" and gs: "grad_has_input_shape fw"
  shows "\<exists>adv grad st' c'.
           tadd inputs (delta st) = Inr adv \<and>
           grad = snd (fw_backward fw (snd (fw_forward fw (fw_zero_grad fw (net st)) adv)) adv targets) \<and>
           inner_iteration fw (build_env a) (inputs, targets) (st, c) = Inr (st', c') \<and>
           shape (delta st') = shape (delta st) \<and>
           elems (delta st') =
             map2 (\<lambda>d g. clamp (d + epsilon a * sgn g) (- epsilon a) (epsilon a))
               (elems (delta st)) (elems grad) \<and>
           epsilon default_args = 8 / 255"
proof -
  define adv where "adv = \<lparr>shape = shape inputs, elems = map2 (+) (elems inputs) (elems (delta st))\<rparr>"
  define net2 where "net2 = snd (fw_forward fw (fw_zero_grad fw (net st)) adv)"
  define grad where "grad = snd (fw_backward fw net2 adv targets)"
  have a: "tadd inputs (delta st) = Inr adv"
    using sh by (simp add: tadd_def adv_def)
  have "shape grad = shape adv"
    using gs by (simp add: grad_def grad_has_input_shape_def)
  then have gsh: "shape (delta st) = shape (tscale (epsilon a) (tsign grad))"
    using sh by (simp add: tscale_def tsign_def adv_def)
  have b: "tadd (delta st) (tscale (epsilon a) (tsign grad)) =
        Inr \<lparr>shape = shape (delta st),
             elems = map2 (+) (elems (delta st)) (elems (tscale (epsilon a) (tsign grad)))\<rparr>"
    by (rule tadd_same_shape [OF gsh])
  have el: "map (\<lambda>x. clamp x (- epsilon a) (epsilon a))
              (map2 (+) (elems (delta st)) (map (\<lambda>x. epsilon a * x) (map sgn (elems grad)))) =
            map2 (\<lambda>d g. clamp (d + epsilon a * sgn g) (- epsilon a) (epsilon a))
               (elems (delta st)) (elems grad)"
    by (simp add: zip_map2 split_def comp_def)
  obtain st' c' where r: "inner_iteration fw (build_env a) (inputs, targets) (st, c) = Inr (st', c')"
    and d: "delta st' = tclamp \<lparr>shape = shape (delta st),
             elems = map2 (+) (elems (delta st)) (elems (tscale (epsilon a) (tsign grad)))\<rparr>
             (- epsilon a) (epsilon a)"
    using a b
    by (simp add: inner_iteration_def split_def Let_def build_env_def grad_def net2_def)
  have "shape (delta st') = shape (delta st)"
    by (simp add: d tclamp_def)
  moreover have "elems (delta st') =
             map2 (\<lambda>d g. clamp (d + epsilon a * sgn g) (- epsilon a) (epsilon a))
               (elems (delta st)) (elems grad)"
    using el by (simp add: d tclamp_def tscale_def tsign_def)
  moreover have "epsilon default_args = 8 / 255"
    by (simp add: default_args_def)
  ultimately show ?thesis
    using a r grad_def net2_def by blast
qed

theorem buffer_update_witness:
  "shape (const_image 1 1) = shape (delta toy_st0) \<and> grad_has_input_shape toy_fw \<and>
   (\<exists>st' c'. inner_iteration toy_fw (build_env toy_args) (const_image 1 1, [1]) (toy_st0, no_counts)
        = Inr (st', c') \<and>
      delta st' = \<lparr>shape = [1, 3, 32, 32], elems = replicate 3072 (8 / 255)\<rparr>)"
proof -
  have h: "shape (const_image 1 1) = shape (delta toy_st0)"
    by (simp add: const_image_def toy_st0_def zeros_def)
  obtain adv grad st' c' where
    a: "tadd (const_image 1 1) (delta toy_st0) = Inr adv" and
    g: "grad = snd (fw_backward toy_fw (snd (fw_forward toy_fw (fw_zero_grad toy_fw (net toy_st0)) adv)) adv [1])" and
    r: "inner_iteration toy_fw (build_env toy_args) (const_image 1 1, [1]) (toy_st0, no_counts) = Inr (st', c')" and
    s: "shape (delta st') = shape (delta toy_st0)" and
    e: "elems (delta st') =
             map2 (\<lambda>d g. clamp (d + epsilon toy_args * sgn g) (- epsilon toy_args) (epsilon toy_args))
               (elems (delta toy_st0)) (elems grad)"
    using buffer_update_is_clamped_sign_ascent [OF h toy_grad_shape, of "[1]" toy_args no_counts]
    by blast
  have adv: "adv = const_image 1 1"
    using a by (simp add: tadd_def const_image_def toy_st0_def zeros_def)
  have "elems grad = replicate 3072 (1 / 2)"
    by (simp add: g adv toy_fw_def const_image_def)
  then have "elems (delta st') = replicate 3072 (8 / 255)"
    by (simp add: e toy_st0_def zeros_def toy_args_def default_args_def clamp_def)
  moreover have "shape (delta st') = [1, 3, 32, 32]"
    by (simp add: s toy_st0_def zeros_def)
  ultimately have "delta st' = \<lparr>shape = [1, 3, 32, 32], elems = replicate 3072 (8 / 255)\<rparr>"
    by simp
  with h toy_grad_shape r show ?thesis by blast
qed

section \<open>The inner loop\<close>

lemma inner_iteration_step:
  assumes sh: "shape inputs = shape (delta st)" and gs: "grad_has_input_shape fw"
  shows "\<exists>adv st' c'.
           tadd inputs (delta st) = Inr adv \<and>
           inner_iteration fw e (inputs, targets) (st, c) = Inr (st', c') \<and>
           shape (delta st') = shape (delta st) \<and>
           trace st' = trace st @
             [ZeroGrad, Forward adv, CrossEntropy, Backward, OptimizerStep, SignAscent, Clamp]"
proof -
  define adv where "adv = \<lparr>shape = shape inputs, elems = map2 (+) (elems inputs) (elems (delta st))\<rparr>"
  define grad where
    "grad = snd (fw_backward fw (snd (fw_forward fw (fw_zero_grad fw (net st)) adv)) adv targets)"
  have a: "tadd inputs (delta st) = Inr adv"
    using sh by (simp add: tadd_def adv_def)
  have "shape grad = shape adv"
    using gs by (simp add: grad_def grad_has_input_shape_def)
  then have "shape (delta st) = shape (tscale (env_epsilon e) (tsign grad))"
    using sh by (simp add: tscale_def tsign_def adv_def)
  then have b: "tadd (delta st) (tscale (env_epsilon e) (tsign grad)) =
        Inr \<lparr>shape = shape (delta st),
             elems = map2 (+) (elems (delta st)) (elems (tscale (env_epsilon e) (tsign grad)))\<rparr>"
    by (rule tadd_same_shape)
  show ?thesis
    using a b
    by (simp add: inner_iteration_def split_def Let_def grad_def tclamp_def)
qed

lemma inner_loop_run:
  assumes gs: "grad_has_input_shape fw"
  shows "shape inputs = shape (delta st) \<Longrightarrow>
         \<exists>sts advs.
           length sts = Suc (length xs) \<and> length advs = length xs \<and> sts ! 0 = (st, c) \<and>
           (\<forall>i<length xs.
              inner_iteration fw e (inputs, targets) (sts ! i) = Inr (sts ! Suc i) \<and>
              tadd inputs (delta (fst (sts ! i))) = Inr (advs ! i)) \<and>
           for_each (\<lambda>i. inner_iteration fw e (inputs, targets)) xs (st, c) =
             Inr (sts ! length xs) \<and>
           shape (delta (fst (sts ! length xs))) = shape (delta st) \<and>
           trace (fst (sts ! length xs)) = trace st @
             concat (map (\<lambda>adv. [ZeroGrad, Forward adv, CrossEntropy, Backward,
                                  OptimizerStep, SignAscent, Clamp]) advs)"
proof (induction xs arbitrary: st c)
  case Nil
  show ?case
    by (rule exI [of _ "[(st, c)]"], rule exI [of _ "[]"]) simp
next
  case (Cons x xs)
  obtain adv st1 c1 where
    a: "tadd inputs (delta st) = Inr adv" and
    r: "inner_iteration fw e (inputs, targets) (st, c) = Inr (st1, c1)" and
    s: "shape (delta st1) = shape (delta st)" and
    t: "trace st1 = trace st @
          [ZeroGrad, Forward adv, CrossEntropy, Backward, OptimizerStep, SignAscent, Clamp]"
    using inner_iteration_step [OF Cons.prems gs] by blast
  have "shape inputs = shape (delta st1)"
    using Cons.prems s by simp
  from Cons.IH [OF this, of c1] obtain sts advs where
    l1: "length sts = Suc (length xs)" and l2: "length advs = length xs" and
    z: "sts ! 0 = (st1, c1)" and
    k: "\<forall>i<length xs.
              inner_iteration fw e (inputs, targets) (sts ! i) = Inr (sts ! Suc i) \<and>
              tadd inputs (delta (fst (sts ! i))) = Inr (advs ! i)" and
    f: "for_each (\<lambda>i. inner_iteration fw e (inputs, targets)) xs (st1, c1) =
             Inr (sts ! length xs)" and
    sh': "shape (delta (fst (sts ! length xs))) = shape (delta st1)" and
    tr: "trace (fst (sts ! length xs)) = trace st1 @
             concat (map (\<lambda>adv. [ZeroGrad, Forward adv, CrossEntropy, Backward,
                                  OptimizerStep, SignAscent, Clamp]) advs)"
    by blast
  have step: "\<forall>i<length (x # xs).
              inner_iteration fw e (inputs, targets) (((st, c) # sts) ! i) = Inr (((st, c) # sts) ! Suc i) \<and>
              tadd inputs (delta (fst (((st, c) # sts) ! i))) = Inr ((adv # advs) ! i)"
  proof (intro allI impI)
    fix i assume "i < length (x # xs)"
    then show "inner_iteration fw e (inputs, targets) (((st, c) # sts) ! i) = Inr (((st, c) # sts) ! Suc i) \<and>
              tadd inputs (delta (fst (((st, c) # sts) ! i))) = Inr ((adv # advs) ! i)"
      using a r z k by (cases i) simp_all
  qed
  show ?case
    apply (rule exI [of _ "(st, c) # sts"])
    apply (rule exI [of _ "adv # advs"])
    using step l1 l2 f sh' tr r s t by simp
qed

lemma length_py_range: "length (py_range n) = nat n"
  by (simp add: py_range_def)

section \<open>What training and evaluation leave alone\<close>

lemma for_each_invariant:
  assumes step: "\<And>x s s'. P s \<Longrightarrow> body x s = Inr s' \<Longrightarrow> P s'"
  shows "P s \<Longrightarrow> for_each body xs s = Inr s' \<Longrightarrow> P s'"
proof (induction xs arbitrary: s)
  case Nil
  then show ?case by simp
next
  case (Cons x xs)
  from Cons.prems(2) obtain s1 where b: "body x s = Inr s1" and r: "for_each body xs s1 = Inr s'"
    by (auto split: sum.splits)
  from step [OF Cons.prems(1) b] have "P s1" .
  from Cons.IH [OF this r] show ?case .
qed

lemma for_each_append:
  "for_each body (xs @ ys) s =
     (case for_each body xs s of Inl err \<Rightarrow> Inl err | Inr s1 \<Rightarrow> for_each body ys s1)"
  by (induction xs arbitrary: s) (auto split: sum.splits)

lemma attacks_of_append: "attacks_of (xs @ ys) = attacks_of xs @ attacks_of ys"
  by (simp add: attacks_of_def)

lemma saves_of_append: "saves_of (xs @ ys) = saves_of xs @ saves_of ys"
  by (simp add: saves_of_def)

lemma inner_iteration_frame:
  "inner_iteration fw e b (st, c) = Inr (st', c') \<Longrightarrow> same_outside_training st st'"
  by (auto simp: inner_iteration_def same_outside_training_def split_def Let_def tadd_def
        tclamp_def attacks_of_def saves_of_def split: sum.splits if_splits)

lemma inner_iteration_clamped:
  "0 \<le> env_epsilon e \<Longrightarrow> inner_iteration fw e b (st, c) = Inr (st', c') \<Longrightarrow>
   elems_between (- env_epsilon e) (env_epsilon e) (delta st')"
  by (auto simp: inner_iteration_def split_def Let_def tclamp_def elems_between_def
        list_all_iff clamp_def split: sum.splits)

lemma same_outside_training_trans:
  "same_outside_training a b \<Longrightarrow> same_outside_training b c \<Longrightarrow> same_outside_training a c"
  by (simp add: same_outside_training_def)

lemma train_batch_frame:
  assumes "train_batch fw e b (st, c) = Inr (st', c')"
  shows "same_outside_training st st'"
proof -
  have "case (st', c') of (s, k) \<Rightarrow> same_outside_training st s"
  proof (rule for_each_invariant [where P = "\<lambda>sc. case sc of (s, k) \<Rightarrow> same_outside_training st s"
        and body = "\<lambda>i. inner_iteration fw e b" and xs = "py_range (env_m e)" and s = "(st, c)"])
    show "case (st, c) of (s, k) \<Rightarrow> same_outside_training st s"
      by (simp add: same_outside_training_def)
    show "for_each (\<lambda>i. inner_iteration fw e b) (py_range (env_m e)) (st, c) = Inr (st', c')"
      using assms by (simp add: train_batch_def)
  next
    fix x :: int and s s' :: "('a, 'b, 'c, 'd) state \<times> counters"
    assume p: "case s of (s, k) \<Rightarrow> same_outside_training st s"
       and b: "inner_iteration fw e b s = Inr s'"
    obtain s1 k1 s2 k2 where s: "s = (s1, k1)" "s' = (s2, k2)"
      by (metis prod.collapse)
    from inner_iteration_frame [of fw e b s1 k1 s2 k2] b s p
    show "case s' of (s, k) \<Rightarrow> same_outside_training st s"
      by (auto intro: same_outside_training_trans)
  qed
  then show ?thesis by simp
qed

lemma train_batches_frame:
  assumes "train_batches fw e bs (st, c) = Inr (st', c')"
  shows "same_outside_training st st'"
proof -
  have "case (st', c') of (s, k) \<Rightarrow> same_outside_training st s"
  proof (rule for_each_invariant [where P = "\<lambda>sc. case sc of (s, k) \<Rightarrow> same_outside_training st s"
        and body = "train_batch fw e" and xs = bs and s = "(st, c)"])
    show "case (st, c) of (s, k) \<Rightarrow> same_outside_training st s"
      by (simp add: same_outside_training_def)
    show "for_each (train_batch fw e) bs (st, c) = Inr (st', c')"
      using assms by (simp add: train_batches_def)
  next
    fix x :: batch and s s' :: "('a, 'b, 'c, 'd) state \<times> counters"
    assume p: "case s of (s, k) \<Rightarrow> same_outside_training st s"
       and b: "train_batch fw e x s = Inr s'"
    obtain s1 k1 s2 k2 where s: "s = (s1, k1)" "s' = (s2, k2)"
      by (metis prod.collapse)
    from train_batch_frame [of fw e x s1 k1 s2 k2] b s p
    show "case s' of (s, k) \<Rightarrow> same_outside_training st s"
      by (auto intro: same_outside_training_trans)
  qed
  then show ?thesis by simp
qed

text \<open>What an evaluation leaves alone, and what it adds to the trace.\<close>

lemma test_batches_effect:
  "foldl (test_batch fw atk) (st, k, n) bs = (st', k', n') \<Longrightarrow>
   delta st' = delta st \<and> optimizer st' = optimizer st \<and> max_acc st' = max_acc st \<and>
   dirs st' = dirs st \<and> files st' = files st \<and>
   saves_of (trace st') = saves_of (trace st) \<and>
   attacks_of (trace st') = attacks_of (trace st) @ replicate (length bs) atk"
proof (induction bs arbitrary: st k n)
  case Nil
  then show ?case by simp
next
  case (Cons b bs)
  obtain s1 k1 n1 where one: "test_batch fw atk (st, k, n) b = (s1, k1, n1)"
    by (metis prod.collapse)
  then have eff: "delta s1 = delta st \<and> optimizer s1 = optimizer st \<and> max_acc s1 = max_acc st \<and>
      dirs s1 = dirs st \<and> files s1 = files st \<and>
      saves_of (trace s1) = saves_of (trace st) \<and>
      attacks_of (trace s1) = attacks_of (trace st) @ [atk]"
    by (auto simp: test_batch_def split_def Let_def attacks_of_def saves_of_def)
  from Cons.prems one have "foldl (test_batch fw atk) (s1, k1, n1) bs = (st', k', n')"
    by simp
  from Cons.IH [OF this] eff show ?case
    by (simp add: replicate_append_same)
qed

lemma run_test_effect:
  assumes "run_test fw e atk epoch st = Inr (acc, st')"
  shows "delta st' = delta st \<and> optimizer st' = optimizer st \<and> max_acc st' = max_acc st \<and>
   dirs st' = dirs st \<and> files st' = files st \<and>
   saves_of (trace st') = saves_of (trace st) \<and>
   attacks_of (trace st') = attacks_of (trace st) @ replicate (length (testloader fw e)) atk"
proof -
  obtain k n where
    f: "foldl (test_batch fw atk) (st\<lparr>net := fw_eval_mode fw (net st)\<rparr>, 0, 0) (testloader fw e)
          = (st', k, n)"
    using assms by (auto simp: run_test_def split: prod.splits if_splits)
  from test_batches_effect [OF f] show ?thesis by simp
qed

section \<open>Checkpointing\<close>

lemma train_cases:
  assumes "train fw e ep st = Inr st'"
  shows "\<exists>st1 acc tmp st2.
           train_part fw e st = Inr (st1, acc) \<and>
           run_test fw e (env_adversary e) ep st1 = Inr (tmp, st2) \<and>
           st' = (if max_acc st2 < tmp then save_best fw e acc ep (st2\<lparr>max_acc := tmp\<rparr>) else st2)"
  using assms by (auto simp: train_def test_def split: sum.splits prod.splits if_splits)

lemma train_part_cases:
  assumes "train_part fw e st = Inr (st1, acc)"
  shows "\<exists>bs r1 c1.
           trainloader fw e (rng st) = (bs, r1) \<and>
           train_batches fw e bs (st\<lparr>net := fw_train_mode fw (net st), rng := r1\<rparr>, no_counts)
             = Inr (st1, c1) \<and>
           total c1 \<noteq> 0 \<and> acc = 100 * real (correct c1) / real (total c1)"
  using assms by (auto simp: train_part_def split: sum.splits prod.splits if_splits)

lemma train_part_frame:
  assumes "train_part fw e st = Inr (st1, acc)"
  shows "max_acc st1 = max_acc st \<and> dirs st1 = dirs st \<and> files st1 = files st \<and>
         attacks_of (trace st1) = attacks_of (trace st) \<and>
         saves_of (trace st1) = saves_of (trace st) \<and> shape (delta st1) = shape (delta st)"
proof -
  from train_part_cases [OF assms] obtain bs r1 c1 where
    "train_batches fw e bs (st\<lparr>net := fw_train_mode fw (net st), rng := r1\<rparr>, no_counts)
       = Inr (st1, c1)"
    by blast
  from train_batches_frame [OF this] show ?thesis
    by (simp add: same_outside_training_def)
qed

lemma save_best_effect:
  "delta (save_best fw e acc ep st) = delta st \<and>
   max_acc (save_best fw e acc ep st) = max_acc st \<and>
   dirs (save_best fw e acc ep st) = insert ''checkpoint'' (dirs st) \<and>
   files (save_best fw e acc ep st) =
     (files st)(best_path e \<mapsto>
        \<lparr>ck_net = fw_state_dict fw (net st), ck_acc = acc, ck_epoch = ep, ck_rng_state = rng st\<rparr>) \<and>
   attacks_of (trace (save_best fw e acc ep st)) = attacks_of (trace st) \<and>
   saves_of (trace (save_best fw e acc ep st)) = saves_of (trace st) @ [best_path e]"
  by (auto simp: save_best_def Let_def attacks_of_def saves_of_def)

lemma run_test_nonempty:
  assumes "run_test fw e atk ep st = Inr (acc, st')"
  shows "testloader fw e \<noteq> []"
proof
  assume "testloader fw e = []"
  with assms show False by (simp add: run_test_def)
qed

lemma toy_train_max_acc:
  "map_sum id max_acc (train toy_fw (build_env toy_args) 0 toy_st0) = Inr 100"
  by (simp add: train_def train_part_def trainloader_def train_batches_def train_batch_def
      py_range_def upto.simps inner_iteration_def toy_fw_def build_env_def toy_args_def
      default_args_def toy_st0_def zeros_def const_image_def tadd_def tscale_def tsign_def
      tclamp_def clamp_def no_counts_def eq_count_def Let_def test_def run_test_def
      testloader_def test_batch_def save_best_def)

lemma toy_train_ok: "\<exists>st'. train toy_fw (build_env toy_args) 0 toy_st0 = Inr st'"
  using toy_train_max_acc by (cases "train toy_fw (build_env toy_args) 0 toy_st0") auto

section \<open>The buffer stays in the epsilon ball\<close>

lemma for_each_state_invariant:
  assumes step: "\<And>x s c s' c'. Q s \<Longrightarrow> body x (s, c) = Inr (s', c') \<Longrightarrow> Q s'"
    and init: "Q s" and run: "for_each body xs (s, c) = Inr (s', c')"
  shows "Q s'"
proof -
  have step': "\<And>x p p'. Q (fst p) \<Longrightarrow> body x p = Inr p' \<Longrightarrow> Q (fst p')"
    using step by (metis prod.collapse)
  have "Q (fst (s, c))" using init by simp
  from for_each_invariant [where P = "\<lambda>p. Q (fst p)", OF step' this run]
  show ?thesis by simp
qed

lemma zeros_between: "lo \<le> 0 \<Longrightarrow> 0 \<le> hi \<Longrightarrow> elems_between lo hi (zeros sh)"
  by (simp add: elems_between_def zeros_def list_all_iff)

lemma startup_initial:
  assumes "startup fw a d f = Inr (k, st0)"
  shows "delta st0 = zeros [nat (batch_size a), 3, 32, 32] \<and> 0 < batch_size a \<and> max_acc st0 = 0"
  using assms
  by (auto simp: startup_def split: if_splits prod.splits sum.splits option.splits)

lemma train_batch_between:
  assumes e: "0 \<le> env_epsilon e"
    and i: "elems_between (- env_epsilon e) (env_epsilon e) (delta st)"
    and r: "train_batch fw e b (st, c) = Inr (st', c')"
  shows "elems_between (- env_epsilon e) (env_epsilon e) (delta st')"
proof (rule for_each_state_invariant [where body = "\<lambda>i. inner_iteration fw e b"
      and xs = "py_range (env_m e)" and s = st and c = c and c' = c'])
  show "elems_between (- env_epsilon e) (env_epsilon e) (delta st)" by (rule i)
  show "for_each (\<lambda>i. inner_iteration fw e b) (py_range (env_m e)) (st, c) = Inr (st', c')"
    using r by (simp add: train_batch_def)
next
  fix x :: int and s s' :: "('a, 'b, 'c, 'd) state" and k k' :: counters
  assume "inner_iteration fw e b (s, k) = Inr (s', k')"
  then show "elems_between (- env_epsilon e) (env_epsilon e) (delta s')"
    by (rule inner_iteration_clamped [OF e])
qed

lemma train_batches_between:
  assumes e: "0 \<le> env_epsilon e"
    and i: "elems_between (- env_epsilon e) (env_epsilon e) (delta st)"
    and r: "train_batches fw e bs (st, c) = Inr (st', c')"
  shows "elems_between (- env_epsilon e) (env_epsilon e) (delta st')"
proof (rule for_each_state_invariant [where body = "train_batch fw e"
      and xs = bs and s = st and c = c and c' = c'])
  show "elems_between (- env_epsilon e) (env_epsilon e) (delta st)" by (rule i)
  show "for_each (train_batch fw e) bs (st, c) = Inr (st', c')"
    using r by (simp add: train_batches_def)
next
  fix x :: batch and s s' :: "('a, 'b, 'c, 'd) state" and k k' :: counters
  assume "elems_between (- env_epsilon e) (env_epsilon e) (delta s)"
    and "train_batch fw e x (s, k) = Inr (s', k')"
  then show "elems_between (- env_epsilon e) (env_epsilon e) (delta s')"
    by (rule train_batch_between [OF e])
qed

lemma train_delta:
  assumes "train fw e ep st = Inr st'"
  shows "\<exists>bs r1 st1 c1.
           trainloader fw e (rng st) = (bs, r1) \<and>
           train_batches fw e bs (st\<lparr>net := fw_train_mode fw (net st), rng := r1\<rparr>, no_counts)
             = Inr (st1, c1) \<and>
           delta st' = delta st1"
proof -
  from train_cases [OF assms] obtain st1 acc tmp st2 where
    tp: "train_part fw e st = Inr (st1, acc)" and
    rt: "run_test fw e (env_adversary e) ep st1 = Inr (tmp, st2)" and
    r: "st' = (if max_acc st2 < tmp then save_best fw e acc ep (st2\<lparr>max_acc := tmp\<rparr>) else st2)"
    by blast
  from train_part_cases [OF tp] obtain bs r1 c1 where
    l: "trainloader fw e (rng st) = (bs, r1)" and
    b: "train_batches fw e bs (st\<lparr>net := fw_train_mode fw (net st), rng := r1\<rparr>, no_counts)
             = Inr (st1, c1)"
    by blast
  have "delta st' = delta st2"
    using r save_best_effect [of fw e acc ep "st2\<lparr>max_acc := tmp\<rparr>"] by simp
  then have "delta st' = delta st1"
    using run_test_effect [OF rt] by simp
  with l b show ?thesis by blast
qed

lemma train_between:
  assumes e: "0 \<le> env_epsilon e"
    and i: "elems_between (- env_epsilon e) (env_epsilon e) (delta st)"
    and r: "train fw e ep st = Inr st'"
  shows "elems_between (- env_epsilon e) (env_epsilon e) (delta st')"
proof -
  from train_delta [OF r] obtain bs r1 st1 c1 where
    b: "train_batches fw e bs (st\<lparr>net := fw_train_mode fw (net st), rng := r1\<rparr>, no_counts)
             = Inr (st1, c1)" and
    d: "delta st' = delta st1"
    by blast
  have "elems_between (- env_epsilon e) (env_epsilon e)
          (delta (st\<lparr>net := fw_train_mode fw (net st), rng := r1\<rparr>))"
    using i by simp
  from train_batches_between [OF e this b] d show ?thesis by simp
qed

lemma adjust_learning_rate_delta: "delta (adjust_learning_rate fw ep st) = delta st"
  by (simp add: adjust_learning_rate_def Let_def)

lemma epoch_loop_between:
  assumes e: "0 \<le> env_epsilon e"
    and i: "elems_between (- env_epsilon e) (env_epsilon e) (delta st)"
    and r: "epoch_loop fw e epochs st = Inr st'"
  shows "elems_between (- env_epsilon e) (env_epsilon e) (delta st')"
proof (rule for_each_invariant [where body = "\<lambda>epoch s. train fw e epoch (adjust_learning_rate fw epoch s)"
      and xs = epochs and s = st])
  show "elems_between (- env_epsilon e) (env_epsilon e) (delta st)" by (rule i)
  show "for_each (\<lambda>epoch s. train fw e epoch (adjust_learning_rate fw epoch s)) epochs st = Inr st'"
    using r by (simp add: epoch_loop_def)
next
  fix x :: int and s s' :: "('a, 'b, 'c, 'd) state"
  assume p: "elems_between (- env_epsilon e) (env_epsilon e) (delta s)"
    and t: "train fw e x (adjust_learning_rate fw x s) = Inr s'"
  have "elems_between (- env_epsilon e) (env_epsilon e) (delta (adjust_learning_rate fw x s))"
    using p by (simp add: adjust_learning_rate_delta)
  from train_between [OF e this t]
  show "elems_between (- env_epsilon e) (env_epsilon e) (delta s')" .
qed

lemma final_eval_delta:
  "final_eval fw e st = Inr st' \<Longrightarrow> delta st' = delta st"
  by (auto simp: final_eval_def test_def test_50_def test_fgsm_def
        split: option.splits sum.splits dest!: run_test_effect)

lemma main_cases:
  assumes "main fw a d f = Inr st'"
  shows "\<exists>k st0 st1. startup fw a d f = Inr (k, st0) \<and>
           epoch_loop fw (build_env a) (py_range2 k 27) st0 = Inr st1 \<and>
           final_eval fw (build_env a) st1 = Inr st'"
  using assms by (auto simp: main_def split: sum.splits prod.splits)

text \<open>
C4. Provided \<open>epsilon\<close> is not negative, every element of the buffer lies between
  \<open>-epsilon\<close> and \<open>+epsilon\<close> throughout training: the initial buffer does, the buffer
  any inner step leaves does (whatever it was before), and the batches of an epoch, a whole
  epoch with its evaluation and checkpoint, the epoch loop and the whole script keep it
  so.
\<close>

theorem delta_stays_within_epsilon:
  assumes e: "0 \<le> epsilon a"
  shows "(\<forall>k st0. startup fw a d f = Inr (k, st0) \<longrightarrow>
            elems_between (- epsilon a) (epsilon a) (delta st0)) \<and>
         (\<forall>b st c st' c'. inner_iteration fw (build_env a) b (st, c) = Inr (st', c') \<longrightarrow>
            elems_between (- epsilon a) (epsilon a) (delta st')) \<and>
         (\<forall>bs st c st' c'. elems_between (- epsilon a) (epsilon a) (delta st) \<longrightarrow>
            train_batches fw (build_env a) bs (st, c) = Inr (st', c') \<longrightarrow>
            elems_between (- epsilon a) (epsilon a) (delta st')) \<and>
         (\<forall>ep st st'. elems_between (- epsilon a) (epsilon a) (delta st) \<longrightarrow>
            train fw (build_env a) ep st = Inr st' \<longrightarrow>
            elems_between (- epsilon a) (epsilon a) (delta st')) \<and>
         (\<forall>epochs st st'. elems_between (- epsilon a) (epsilon a) (delta st) \<longrightarrow>
            epoch_loop fw (build_env a) epochs st = Inr st' \<longrightarrow>
            elems_between (- epsilon a) (epsilon a) (delta st')) \<and>
         (\<forall>st'. main fw a d f = Inr st' \<longrightarrow>
            elems_between (- epsilon a) (epsilon a) (delta st'))"
proof -
  have ee: "env_epsilon (build_env a) = epsilon a"
    by (simp add: build_env_def)
  have e': "0 \<le> env_epsilon (build_env a)"
    using e by (simp add: ee)
  have c1: "\<forall>k st0. startup fw a d f = Inr (k, st0) \<longrightarrow>
            elems_between (- epsilon a) (epsilon a) (delta st0)"
    using e startup_initial [of fw a d f] zeros_between [of "- epsilon a" "epsilon a"]
    by simp
  have c2: "\<forall>b st c st' c'. inner_iteration fw (build_env a) b (st, c) = Inr (st', c') \<longrightarrow>
            elems_between (- epsilon a) (epsilon a) (delta st')"
    using inner_iteration_clamped [OF e'] unfolding ee by blast
  have c3: "\<forall>bs st c st' c'. elems_between (- epsilon a) (epsilon a) (delta st) \<longrightarrow>
            train_batches fw (build_env a) bs (st, c) = Inr (st', c') \<longrightarrow>
            elems_between (- epsilon a) (epsilon a) (delta st')"
    using train_batches_between [OF e'] unfolding ee by blast
  have c4: "\<forall>ep st st'. elems_between (- epsilon a) (epsilon a) (delta st) \<longrightarrow>
            train fw (build_env a) ep st = Inr st' \<longrightarrow>
            elems_between (- epsilon a) (epsilon a) (delta st')"
    using train_between [OF e'] unfolding ee by blast
  have c5: "\<forall>epochs st st'. elems_between (- epsilon a) (epsilon a) (delta st) \<longrightarrow>
            epoch_loop fw (build_env a) epochs st = Inr st' \<longrightarrow>
            elems_between (- epsilon a) (epsilon a) (delta st')"
    using epoch_loop_between [OF e'] unfolding ee by blast
  have c6: "\<forall>st'. main fw a d f = Inr st' \<longrightarrow>
            elems_between (- epsilon a) (epsilon a) (delta st')"
  proof (intro allI impI)
    fix st' assume "main fw a d f = Inr st'"
    from main_cases [OF this] obtain k st0 st1 where
      s: "startup fw a d f = Inr (k, st0)" and
      l: "epoch_loop fw (build_env a) (py_range2 k 27) st0 = Inr st1" and
      f: "final_eval fw (build_env a) st1 = Inr st'"
      by blast
    from c1 s have "elems_between (- epsilon a) (epsilon a) (delta st0)" by blast
    with c5 l have "elems_between (- epsilon a) (epsilon a) (delta st1)" by blast
    with final_eval_delta [OF f] show "elems_between (- epsilon a) (epsilon a) (delta st')"
      by simp
  qed
  from c1 c2 c3 c4 c5 c6 show ?thesis by blast
qed

theorem delta_within_epsilon_witness:
  "0 \<le> epsilon toy_args \<and>
   startup toy_fw toy_args {} Map.empty = Inr (0, toy_st0) \<and>
   elems_between (- (8 / 255)) (8 / 255) (delta toy_st0) \<and>
   (\<exists>st'. train toy_fw (build_env toy_args) 0 toy_st0 = Inr st' \<and>
      elems_between (- (8 / 255)) (8 / 255) (delta st'))"
proof -
  have e: "0 \<le> epsilon toy_args" and v: "epsilon toy_args = 8 / 255"
    by (simp_all add: toy_args_def default_args_def)
  note th = delta_stays_within_epsilon [OF e, of toy_fw "{}" Map.empty]
  from th toy_startup have i: "elems_between (- epsilon toy_args) (epsilon toy_args) (delta toy_st0)"
    by blast
  from toy_train_ok obtain st' where t: "train toy_fw (build_env toy_args) 0 toy_st0 = Inr st'"
    by blast
  from th i t have "elems_between (- epsilon toy_args) (epsilon toy_args) (delta st')"
    by blast
  with e i t toy_startup show ?thesis
    unfolding v by blast
qed

section \<open>Evaluation at the end of an epoch\<close>




section \<open>The final evaluation\<close>

lemma final_eval_cases:
  assumes "final_eval fw e st = Inr st'"
  shows "\<exists>ck acc1 s1 acc2 s2 acc3.
           files st (best_path e) = Some ck \<and>
           run_test fw e (env_adversary e) 111
             (st\<lparr>net := fw_eval_mode fw (fw_load_state_dict fw (ck_net ck) (net st)),
                 trace := trace st @ [TorchLoad (best_path e)]\<rparr>) = Inr (acc1, s1) \<and>
           run_test fw e (env_adversary_50 e) 111 s1 = Inr (acc2, s2) \<and>
           run_test fw e (env_adversary_FGSM e) 111 s2 = Inr (acc3, st')"
  using assms
  by (auto simp: final_eval_def test_def test_50_def test_fgsm_def
        split: option.splits sum.splits)

section \<open>One inner step on its data\<close>

lemma inner_iteration_dataflow:
  assumes "inner_iteration fw e (inputs, targets) (st, c) = Inr (st', c')"
  shows "\<exists>adv d.
     tadd inputs (delta st) = Inr adv \<and>
     (let net1 = fw_zero_grad fw (net st);
          (outputs, net2) = fw_forward fw net1 adv;
          loss = fw_cross_entropy fw outputs targets;
          (net3, grad) = fw_backward fw net2 adv targets;
          (opt1, net4) = fw_step fw (optimizer st) net3
      in tadd (delta st) (tscale (env_epsilon e) (tsign grad)) = Inr d \<and>
         st' = st\<lparr>net := net4, optimizer := opt1,
                    delta := tclamp d (- env_epsilon e) (env_epsilon e),
                    trace := trace st @
                      [ZeroGrad, Forward adv, CrossEntropy, Backward, OptimizerStep,
                       SignAscent, Clamp]\<rparr> \<and>
         c' = c\<lparr>train_loss := train_loss c + loss,
                 total := total c + length targets,
                 correct := correct c + eq_count (fw_argmax fw outputs) targets\<rparr>)"
  using assms
  by (auto simp: inner_iteration_def split_def Let_def split: sum.splits)

lemma for_each_chain:
  "for_each body xs s = Inr r \<Longrightarrow>
   \<exists>S. length S = Suc (length xs) \<and> S ! 0 = s \<and> S ! length xs = r \<and>
       (\<forall>j<length xs. body (xs ! j) (S ! j) = Inr (S ! Suc j))"
proof (induction xs arbitrary: s)
  case Nil
  then show ?case by (intro exI [of _ "[s]"]) simp
next
  case (Cons x xs)
  from Cons.prems obtain s1 where b: "body x s = Inr s1" and r: "for_each body xs s1 = Inr r"
    by (auto split: sum.splits)
  from Cons.IH [OF r] obtain S where
    l: "length S = Suc (length xs)" and z: "S ! 0 = s1" and e: "S ! length xs = r" and
    k: "\<forall>j<length xs. body (xs ! j) (S ! j) = Inr (S ! Suc j)"
    by blast
  have "\<forall>j<length (x # xs). body ((x # xs) ! j) ((s # S) ! j) = Inr ((s # S) ! Suc j)"
  proof (intro allI impI)
    fix j assume "j < length (x # xs)"
    then show "body ((x # xs) ! j) ((s # S) ! j) = Inr ((s # S) ! Suc j)"
      using b z k by (cases j) simp_all
  qed
  then show ?case
    using l e by (intro exI [of _ "s # S"]) simp
qed

section \<open>The inner iterations of a batch\<close>

text \<open>
C2. For every training batch whose inputs have the shape of the buffer, in a framework
  whose input gradient has the shape of its input, the loop over the batch returns and
  runs exactly \<open>m\<close> inner iterations, \<open>m\<close> being the \<open>--m\<close> argument, 8 by default (no
  iteration when \<open>m\<close> is not positive): there are \<open>m + 1\<close> successive states, the first is
  the state before the batch, the last is what the batch returns, and each comes from the
  one before by one iteration that, in this order, zeroes the gradients of the network,
  applies the network to \<open>inputs + delta\<close>, takes the cross-entropy loss of the outputs,
  runs the backward pass, lets the optimizer step on the network the backward pass left,
  adds \<open>epsilon * sign(grad)\<close> to the buffer and clamps the sum to \<open>[-epsilon, epsilon]\<close>;
  the loss and the counts of the iteration are added to the counters. The buffer an
  iteration reads is the buffer of the state the iteration before produced.
\<close>

theorem batch_runs_m_ordered_iterations:
  assumes sh: "shape inputs = shape (delta st)" and gs: "grad_has_input_shape fw"
  shows "\<exists>sts.
     length sts = Suc (nat (env_m e)) \<and> sts ! 0 = (st, c) \<and>
     train_batch fw e (inputs, targets) (st, c) = Inr (sts ! nat (env_m e)) \<and>
     (\<forall>i<nat (env_m e).
        case (sts ! i, sts ! Suc i) of
          ((s, k), (s', k')) \<Rightarrow>
            \<exists>adv d.
              tadd inputs (delta s) = Inr adv \<and>
              (let net1 = fw_zero_grad fw (net s);
                   (outputs, net2) = fw_forward fw net1 adv;
                   loss = fw_cross_entropy fw outputs targets;
                   (net3, grad) = fw_backward fw net2 adv targets;
                   (opt1, net4) = fw_step fw (optimizer s) net3
               in tadd (delta s) (tscale (env_epsilon e) (tsign grad)) = Inr d \<and>
                  s' = s\<lparr>net := net4, optimizer := opt1,
                          delta := tclamp d (- env_epsilon e) (env_epsilon e),
                          trace := trace s @
                            [ZeroGrad, Forward adv, CrossEntropy, Backward, OptimizerStep,
                             SignAscent, Clamp]\<rparr> \<and>
                  k' = k\<lparr>train_loss := train_loss k + loss,
                          total := total k + length targets,
                          correct := correct k + eq_count (fw_argmax fw outputs) targets\<rparr>)) \<and>
     env_m (build_env a) = m a \<and> m default_args = 8"
proof -
  from inner_loop_run [OF gs sh, of "py_range (env_m e)" c e targets]
  obtain sts where
    l: "length sts = Suc (length (py_range (env_m e)))" and z: "sts ! 0 = (st, c)" and
    k: "\<forall>i<length (py_range (env_m e)).
          inner_iteration fw e (inputs, targets) (sts ! i) = Inr (sts ! Suc i)" and
    f: "for_each (\<lambda>i. inner_iteration fw e (inputs, targets)) (py_range (env_m e)) (st, c) =
          Inr (sts ! length (py_range (env_m e)))"
    by blast
  have step: "\<forall>i<nat (env_m e).
        case (sts ! i, sts ! Suc i) of
          ((s, k), (s', k')) \<Rightarrow>
            \<exists>adv d.
              tadd inputs (delta s) = Inr adv \<and>
              (let net1 = fw_zero_grad fw (net s);
                   (outputs, net2) = fw_forward fw net1 adv;
                   loss = fw_cross_entropy fw outputs targets;
                   (net3, grad) = fw_backward fw net2 adv targets;
                   (opt1, net4) = fw_step fw (optimizer s) net3
               in tadd (delta s) (tscale (env_epsilon e) (tsign grad)) = Inr d \<and>
                  s' = s\<lparr>net := net4, optimizer := opt1,
                          delta := tclamp d (- env_epsilon e) (env_epsilon e),
                          trace := trace s @
                            [ZeroGrad, Forward adv, CrossEntropy, Backward, OptimizerStep,
                             SignAscent, Clamp]\<rparr> \<and>
                  k' = k\<lparr>train_loss := train_loss k + loss,
                          total := total k + length targets,
                          correct := correct k + eq_count (fw_argmax fw outputs) targets\<rparr>)"
  proof (intro allI impI)
    fix i assume i: "i < nat (env_m e)"
    obtain s n where p: "sts ! i = (s, n)" by (cases "sts ! i")
    obtain s' n' where p': "sts ! Suc i = (s', n')" by (cases "sts ! Suc i")
    from k i have "inner_iteration fw e (inputs, targets) (sts ! i) = Inr (sts ! Suc i)"
      by (simp add: length_py_range)
    then have "inner_iteration fw e (inputs, targets) (s, n) = Inr (s', n')"
      by (simp add: p p')
    from inner_iteration_dataflow [OF this]
    show "case (sts ! i, sts ! Suc i) of
          ((s, k), (s', k')) \<Rightarrow>
            \<exists>adv d.
              tadd inputs (delta s) = Inr adv \<and>
              (let net1 = fw_zero_grad fw (net s);
                   (outputs, net2) = fw_forward fw net1 adv;
                   loss = fw_cross_entropy fw outputs targets;
                   (net3, grad) = fw_backward fw net2 adv targets;
                   (opt1, net4) = fw_step fw (optimizer s) net3
               in tadd (delta s) (tscale (env_epsilon e) (tsign grad)) = Inr d \<and>
                  s' = s\<lparr>net := net4, optimizer := opt1,
                          delta := tclamp d (- env_epsilon e) (env_epsilon e),
                          trace := trace s @
                            [ZeroGrad, Forward adv, CrossEntropy, Backward, OptimizerStep,
                             SignAscent, Clamp]\<rparr> \<and>
                  k' = k\<lparr>train_loss := train_loss k + loss,
                          total := total k + length targets,
                          correct := correct k + eq_count (fw_argmax fw outputs) targets\<rparr>)"
      by (simp add: p p')
  qed
  have d: "env_m (build_env a) = m a \<and> m default_args = 8"
    by (simp add: build_env_def default_args_def)
  have "length sts = Suc (nat (env_m e))"
    using l by (simp add: length_py_range)
  moreover have "train_batch fw e (inputs, targets) (st, c) = Inr (sts ! nat (env_m e))"
    using f by (simp add: train_batch_def length_py_range)
  ultimately show ?thesis
    using z step d by (intro exI [of _ sts]) simp
qed

theorem batch_iterations_witness:
  "shape (const_image 1 1) = shape (delta toy_st0) \<and> grad_has_input_shape toy_fw \<and>
   (\<exists>sts. length sts = 4 \<and> sts ! 0 = (toy_st0, no_counts) \<and>
      train_batch toy_fw (build_env toy_args) (const_image 1 1, [1]) (toy_st0, no_counts)
        = Inr (sts ! 3) \<and>
      net (fst (sts ! 1)) = (9 / 10, 1) \<and>
      delta (fst (sts ! 1)) = const_image 1 (8 / 255) \<and>
      train_loss (snd (sts ! 1)) = 3072 \<and> total (snd (sts ! 1)) = 1)"
proof -
  have h: "shape (const_image 1 1) = shape (delta toy_st0)"
    by (simp add: const_image_def toy_st0_def zeros_def)
  have m3: "nat (env_m (build_env toy_args)) = 3"
    by (simp add: build_env_def toy_args_def default_args_def)
  from batch_runs_m_ordered_iterations
    [OF h toy_grad_shape, of "build_env toy_args" no_counts "[1]" toy_args]
  have "\<exists>sts. length sts = 4 \<and> sts ! 0 = (toy_st0, no_counts) \<and>
      train_batch toy_fw (build_env toy_args) (const_image 1 1, [1]) (toy_st0, no_counts)
        = Inr (sts ! 3) \<and>
      net (fst (sts ! 1)) = (9 / 10, 1) \<and>
      delta (fst (sts ! 1)) = const_image 1 (8 / 255) \<and>
      train_loss (snd (sts ! 1)) = 3072 \<and> total (snd (sts ! 1)) = 1"
    unfolding m3
  proof (elim exE conjE)
    fix sts
    assume l: "length sts = Suc 3" and z: "sts ! 0 = (toy_st0, no_counts)"
      and r: "train_batch toy_fw (build_env toy_args) (const_image 1 1, [1]) (toy_st0, no_counts)
                = Inr (sts ! 3)"
      and k: "\<forall>i<3.
        case (sts ! i, sts ! Suc i) of
          ((s, k), (s', k')) \<Rightarrow>
            \<exists>adv d.
              tadd (const_image 1 1) (delta s) = Inr adv \<and>
              (let net1 = fw_zero_grad toy_fw (net s);
                   (outputs, net2) = fw_forward toy_fw net1 adv;
                   loss = fw_cross_entropy toy_fw outputs [1];
                   (net3, grad) = fw_backward toy_fw net2 adv [1];
                   (opt1, net4) = fw_step toy_fw (optimizer s) net3
               in tadd (delta s) (tscale (env_epsilon (build_env toy_args)) (tsign grad)) = Inr d \<and>
                  s' = s\<lparr>net := net4, optimizer := opt1,
                          delta := tclamp d (- env_epsilon (build_env toy_args))
                                     (env_epsilon (build_env toy_args)),
                          trace := trace s @
                            [ZeroGrad, Forward adv, CrossEntropy, Backward, OptimizerStep,
                             SignAscent, Clamp]\<rparr> \<and>
                  k' = k\<lparr>train_loss := train_loss k + loss,
                          total := total k + length [1::nat],
                          correct := correct k + eq_count (fw_argmax toy_fw outputs) [1]\<rparr>)"
    obtain s1 k1 where p: "sts ! 1 = (s1, k1)" by (cases "sts ! 1")
    from k [rule_format, of 0] z p
    have f: "net s1 = (9 / 10, 1) \<and> delta s1 = const_image 1 (8 / 255) \<and>
             train_loss k1 = 3072 \<and> total k1 = 1"
      by (auto simp: tadd_def toy_fw_def toy_st0_def zeros_def const_image_def Let_def
          build_env_def toy_args_def default_args_def tscale_def tsign_def tclamp_def clamp_def
          no_counts_def sum_list_replicate split: if_splits)
    with l z r p show "\<exists>sts. length sts = 4 \<and> sts ! 0 = (toy_st0, no_counts) \<and>
      train_batch toy_fw (build_env toy_args) (const_image 1 1, [1]) (toy_st0, no_counts)
        = Inr (sts ! 3) \<and>
      net (fst (sts ! 1)) = (9 / 10, 1) \<and>
      delta (fst (sts ! 1)) = const_image 1 (8 / 255) \<and>
      train_loss (snd (sts ! 1)) = 3072 \<and> total (snd (sts ! 1)) = 1"
      by (intro exI [of _ sts]) simp
  qed
  with h toy_grad_shape show ?thesis by blast
qed

section \<open>The buffer across batches and epochs\<close>

lemma train_batches_chain:
  assumes "train_batches fw e bs (st, c) = Inr r"
  shows "\<exists>S. length S = Suc (length bs) \<and> S ! 0 = (st, c) \<and> S ! length bs = r \<and>
      (\<forall>j<length bs.
         \<exists>sts. length sts = Suc (nat (env_m e)) \<and>
           sts ! 0 = S ! j \<and> sts ! nat (env_m e) = S ! Suc j \<and>
           delta (fst (sts ! 0)) = delta (fst (S ! j)) \<and>
           delta (fst (S ! Suc j)) = delta (fst (sts ! nat (env_m e))) \<and>
           (\<forall>i<nat (env_m e). inner_iteration fw e (bs ! j) (sts ! i) = Inr (sts ! Suc i)))"
proof -
  from assms have "for_each (train_batch fw e) bs (st, c) = Inr r"
    by (simp add: train_batches_def)
  from for_each_chain [OF this] obtain S where
    l: "length S = Suc (length bs)" and z: "S ! 0 = (st, c)" and e: "S ! length bs = r" and
    k: "\<forall>j<length bs. train_batch fw e (bs ! j) (S ! j) = Inr (S ! Suc j)"
    by blast
  have "\<forall>j<length bs.
         \<exists>sts. length sts = Suc (nat (env_m e)) \<and>
           sts ! 0 = S ! j \<and> sts ! nat (env_m e) = S ! Suc j \<and>
           delta (fst (sts ! 0)) = delta (fst (S ! j)) \<and>
           delta (fst (S ! Suc j)) = delta (fst (sts ! nat (env_m e))) \<and>
           (\<forall>i<nat (env_m e). inner_iteration fw e (bs ! j) (sts ! i) = Inr (sts ! Suc i))"
  proof (intro allI impI)
    fix j assume "j < length bs"
    with k have "for_each (\<lambda>i. inner_iteration fw e (bs ! j)) (py_range (env_m e)) (S ! j)
                   = Inr (S ! Suc j)"
      by (simp add: train_batch_def)
    from for_each_chain [OF this] obtain sts where
      "length sts = Suc (length (py_range (env_m e)))" and "sts ! 0 = S ! j" and
      "sts ! length (py_range (env_m e)) = S ! Suc j" and
      "\<forall>i<length (py_range (env_m e)).
          inner_iteration fw e (bs ! j) (sts ! i) = Inr (sts ! Suc i)"
      by blast
    then show "\<exists>sts. length sts = Suc (nat (env_m e)) \<and>
           sts ! 0 = S ! j \<and> sts ! nat (env_m e) = S ! Suc j \<and>
           delta (fst (sts ! 0)) = delta (fst (S ! j)) \<and>
           delta (fst (S ! Suc j)) = delta (fst (sts ! nat (env_m e))) \<and>
           (\<forall>i<nat (env_m e). inner_iteration fw e (bs ! j) (sts ! i) = Inr (sts ! Suc i))"
      by (intro exI [of _ sts]) (simp add: length_py_range)
  qed
  with l z e show ?thesis by blast
qed

text \<open>
C3. The buffer is persistent across batches and across epochs. It is created once, at
  start-up, as the all-zeros tensor of shape \<open>(batch_size, 3, 32, 32)\<close>. Over the batches
  of an epoch there is one state per batch boundary, and the \<open>m\<close> inner iterations of each
  batch start from exactly the state the previous batch returned and end in the state the
  batch returns: the buffer at the start of a batch is the buffer after the last inner step
  of the previous batch, and nothing resets it in between. An epoch starts its batches on
  the state it was given, with only the mode of the network and the random state changed,
  and returns the buffer its last batch left; the epoch loop hands the state one epoch
  returns to the next, and the learning-rate adjustment in between leaves the buffer as it
  is.
\<close>

theorem delta_persists_across_batches_and_epochs:
  "(\<forall>k st0. startup fw a d f = Inr (k, st0) \<longrightarrow>
      delta st0 = zeros [nat (batch_size a), 3, 32, 32] \<and> 0 < batch_size a) \<and>
   (\<forall>bs st c r. train_batches fw e bs (st, c) = Inr r \<longrightarrow>
      (\<exists>S. length S = Suc (length bs) \<and> S ! 0 = (st, c) \<and> S ! length bs = r \<and>
         (\<forall>j<length bs.
            \<exists>sts. length sts = Suc (nat (env_m e)) \<and>
              sts ! 0 = S ! j \<and> sts ! nat (env_m e) = S ! Suc j \<and>
              delta (fst (sts ! 0)) = delta (fst (S ! j)) \<and>
              delta (fst (S ! Suc j)) = delta (fst (sts ! nat (env_m e))) \<and>
              (\<forall>i<nat (env_m e).
                 inner_iteration fw e (bs ! j) (sts ! i) = Inr (sts ! Suc i))))) \<and>
   (\<forall>ep st st'. train fw e ep st = Inr st' \<longrightarrow>
      (\<exists>bs r1 st1 c1.
         trainloader fw e (rng st) = (bs, r1) \<and>
         train_batches fw e bs (st\<lparr>net := fw_train_mode fw (net st), rng := r1\<rparr>, no_counts)
           = Inr (st1, c1) \<and>
         delta st' = delta st1)) \<and>
   (\<forall>ep epochs st r. epoch_loop fw e (ep # epochs) st = Inr r \<longrightarrow>
      (\<exists>st'. train fw e ep (adjust_learning_rate fw ep st) = Inr st' \<and>
         delta (adjust_learning_rate fw ep st) = delta st \<and>
         epoch_loop fw e epochs st' = Inr r))"
proof (intro conjI allI impI)
  fix k st0 assume s: "startup fw a d f = Inr (k, st0)"
  from startup_initial [OF s] show "delta st0 = zeros [nat (batch_size a), 3, 32, 32]"
    by simp
  from startup_initial [OF s] show "0 < batch_size a"
    by simp
next
  fix bs st c r
  assume "train_batches fw e bs (st, c) = Inr r"
  from train_batches_chain [OF this]
  show "\<exists>S. length S = Suc (length bs) \<and> S ! 0 = (st, c) \<and> S ! length bs = r \<and>
         (\<forall>j<length bs.
            \<exists>sts. length sts = Suc (nat (env_m e)) \<and>
              sts ! 0 = S ! j \<and> sts ! nat (env_m e) = S ! Suc j \<and>
              delta (fst (sts ! 0)) = delta (fst (S ! j)) \<and>
              delta (fst (S ! Suc j)) = delta (fst (sts ! nat (env_m e))) \<and>
              (\<forall>i<nat (env_m e).
                 inner_iteration fw e (bs ! j) (sts ! i) = Inr (sts ! Suc i)))" .
next
  fix ep st st' assume "train fw e ep st = Inr st'"
  from train_delta [OF this]
  show "\<exists>bs r1 st1 c1.
         trainloader fw e (rng st) = (bs, r1) \<and>
         train_batches fw e bs (st\<lparr>net := fw_train_mode fw (net st), rng := r1\<rparr>, no_counts)
           = Inr (st1, c1) \<and>
         delta st' = delta st1" .
next
  fix ep epochs st r assume "epoch_loop fw e (ep # epochs) st = Inr r"
  then show "\<exists>st'. train fw e ep (adjust_learning_rate fw ep st) = Inr st' \<and>
         delta (adjust_learning_rate fw ep st) = delta st \<and>
         epoch_loop fw e epochs st' = Inr r"
    by (auto simp: epoch_loop_def adjust_learning_rate_delta split: sum.splits)
qed

theorem delta_persists_witness:
  "startup toy_fw toy_args {} Map.empty = Inr (0, toy_st0) \<and>
   delta toy_st0 = zeros [1, 3, 32, 32] \<and>
   (\<exists>st' bs r1 st1 c1 S.
      train toy_fw (build_env toy_args) 0 toy_st0 = Inr st' \<and>
      trainloader toy_fw (build_env toy_args) (rng toy_st0) = (bs, r1) \<and>
      length bs = 2 \<and>
      train_batches toy_fw (build_env toy_args) bs
        (toy_st0\<lparr>net := fw_train_mode toy_fw (net toy_st0), rng := r1\<rparr>, no_counts) = Inr (st1, c1) \<and>
      length S = 3 \<and>
      S ! 0 = (toy_st0\<lparr>net := fw_train_mode toy_fw (net toy_st0), rng := r1\<rparr>, no_counts) \<and>
      S ! 2 = (st1, c1) \<and>
      delta st' = delta st1)"
proof -
  note th = delta_persists_across_batches_and_epochs
    [of toy_fw toy_args "{}" Map.empty "build_env toy_args"]
  from th toy_startup have "delta toy_st0 = zeros [nat (batch_size toy_args), 3, 32, 32]"
    by blast
  then have z: "delta toy_st0 = zeros [1, 3, 32, 32]"
    by (simp add: toy_args_def default_args_def)
  from toy_train_ok obtain st' where t: "train toy_fw (build_env toy_args) 0 toy_st0 = Inr st'"
    by blast
  from th t obtain bs r1 st1 c1 where
    tl: "trainloader toy_fw (build_env toy_args) (rng toy_st0) = (bs, r1)" and
    tb: "train_batches toy_fw (build_env toy_args) bs
        (toy_st0\<lparr>net := fw_train_mode toy_fw (net toy_st0), rng := r1\<rparr>, no_counts) = Inr (st1, c1)" and
    d: "delta st' = delta st1"
    by blast
  have lb: "length bs = 2"
    using tl by (auto simp: trainloader_def toy_fw_def)
  from th tb obtain S where
    "length S = Suc (length bs)" and
    "S ! 0 = (toy_st0\<lparr>net := fw_train_mode toy_fw (net toy_st0), rng := r1\<rparr>, no_counts)" and
    "S ! length bs = (st1, c1)"
    by blast
  with toy_startup z t tl tb d lb show ?thesis
    by (intro conjI exI [of _ S] exI [of _ st'] exI [of _ bs] exI [of _ r1] exI [of _ st1]
        exI [of _ c1]) simp_all
qed

section \<open>The running maximum through the epoch loop\<close>

lemma adjust_learning_rate_frame:
  "max_acc (adjust_learning_rate fw ep st) = max_acc st \<and>
   files (adjust_learning_rate fw ep st) = files st \<and>
   dirs (adjust_learning_rate fw ep st) = dirs st \<and>
   trace (adjust_learning_rate fw ep st) = trace st \<and>
   net (adjust_learning_rate fw ep st) = net st \<and>
   rng (adjust_learning_rate fw ep st) = rng st"
  by (simp add: adjust_learning_rate_def Let_def)

lemma train_epoch_step:
  assumes "train fw e ep (adjust_learning_rate fw ep s) = Inr s'"
  shows "\<exists>tmp. epoch_step fw e ep s tmp s'"
proof -
  from train_cases [OF assms] obtain st1 acc tmp st2 where
    tp: "train_part fw e (adjust_learning_rate fw ep s) = Inr (st1, acc)" and
    rt: "run_test fw e (env_adversary e) ep st1 = Inr (tmp, st2)" and
    r: "s' = (if max_acc st2 < tmp then save_best fw e acc ep (st2\<lparr>max_acc := tmp\<rparr>) else st2)"
    by blast
  note f1 = train_part_frame [OF tp]
  note f2 = run_test_effect [OF rt]
  note f0 = adjust_learning_rate_frame [of fw ep s]
  have "files st2 = files s \<and> dirs st2 = dirs s \<and>
        saves_of (trace st2) = saves_of (trace s) \<and> max_acc st2 = max_acc s"
    using f0 f1 f2 by simp
  with tp rt r show ?thesis
    unfolding epoch_step_def by auto
qed

lemma epoch_step_result:
  assumes "epoch_step fw e ep s tmp s'"
  shows "max_acc s' = max (max_acc s) tmp \<and>
         (max_acc s < tmp \<longrightarrow> files s' (best_path e) \<noteq> None \<and> max_acc s' = tmp) \<and>
         (\<not> max_acc s < tmp \<longrightarrow> files s' = files s \<and> max_acc s' = max_acc s)"
  using assms save_best_effect [of fw e _ ep]
  by (auto simp: epoch_step_def)

lemma foldl_max_ge: "(a::real) \<le> foldl max a xs"
proof (induction xs arbitrary: a)
  case Nil
  show ?case by simp
next
  case (Cons x xs)
  have "a \<le> max a x" by simp
  also have "max a x \<le> foldl max (max a x) xs" by (rule Cons.IH)
  finally show ?case by simp
qed

lemma foldl_max_elem: "i < length xs \<Longrightarrow> xs ! i \<le> foldl max (a::real) xs"
proof (induction xs arbitrary: a i)
  case Nil
  then show ?case by simp
next
  case (Cons x xs)
  show ?case
  proof (cases i)
    case 0
    have "x \<le> max a x" by simp
    also have "max a x \<le> foldl max (max a x) xs" by (rule foldl_max_ge)
    finally show ?thesis using 0 by simp
  next
    case (Suc j)
    with Cons.prems have "j < length xs" by simp
    from Cons.IH [OF this, of "max a x"] show ?thesis using Suc by simp
  qed
qed

lemma epoch_loop_chain:
  "epoch_loop fw e epochs st = Inr st' \<Longrightarrow>
   \<exists>S accs.
     length S = Suc (length epochs) \<and> length accs = length epochs \<and>
     S ! 0 = st \<and> S ! length epochs = st' \<and>
     (\<forall>j<length epochs.
        max_acc (S ! j) = foldl max (max_acc st) (take j accs) \<and>
        epoch_step fw e (epochs ! j) (S ! j) (accs ! j) (S ! Suc j)) \<and>
     max_acc st' = foldl max (max_acc st) accs \<and>
     (files st' (best_path e) = files st (best_path e) \<and> max_acc st' = max_acc st \<or>
      (\<exists>j<length epochs.
         max_acc (S ! j) < accs ! j \<and> accs ! j = max_acc st' \<and>
         files st' (best_path e) = files (S ! Suc j) (best_path e)))"
proof (induction epochs arbitrary: st)
  case Nil
  then show ?case
    by (intro exI [of _ "[st]"] exI [of _ "[]"]) (simp add: epoch_loop_def)
next
  case (Cons ep epochs)
  from Cons.prems obtain s1 where
    t: "train fw e ep (adjust_learning_rate fw ep st) = Inr s1" and
    r: "epoch_loop fw e epochs s1 = Inr st'"
    by (auto simp: epoch_loop_def split: sum.splits)
  from train_epoch_step [OF t] obtain tmp where es: "epoch_step fw e ep st tmp s1"
    by blast
  note er = epoch_step_result [OF es]
  from Cons.IH [OF r] obtain S accs where
    l1: "length S = Suc (length epochs)" and l2: "length accs = length epochs" and
    z: "S ! 0 = s1" and en: "S ! length epochs = st'" and
    k: "\<forall>j<length epochs.
        max_acc (S ! j) = foldl max (max_acc s1) (take j accs) \<and>
        epoch_step fw e (epochs ! j) (S ! j) (accs ! j) (S ! Suc j)" and
    mx: "max_acc st' = foldl max (max_acc s1) accs" and
    b: "files st' (best_path e) = files s1 (best_path e) \<and> max_acc st' = max_acc s1 \<or>
      (\<exists>j<length epochs.
         max_acc (S ! j) < accs ! j \<and> accs ! j = max_acc st' \<and>
         files st' (best_path e) = files (S ! Suc j) (best_path e))"
    by blast
  have m1: "max_acc s1 = max (max_acc st) tmp"
    using er by simp
  have k': "\<forall>j<length (ep # epochs).
        max_acc ((st # S) ! j) = foldl max (max_acc st) (take j (tmp # accs)) \<and>
        epoch_step fw e ((ep # epochs) ! j) ((st # S) ! j) ((tmp # accs) ! j) ((st # S) ! Suc j)"
  proof (intro allI impI)
    fix j assume j: "j < length (ep # epochs)"
    show "max_acc ((st # S) ! j) = foldl max (max_acc st) (take j (tmp # accs)) \<and>
        epoch_step fw e ((ep # epochs) ! j) ((st # S) ! j) ((tmp # accs) ! j) ((st # S) ! Suc j)"
    proof (cases j)
      case 0
      then show ?thesis using es z by simp
    next
      case (Suc i)
      with j have "i < length epochs" by simp
      with k have "max_acc (S ! i) = foldl max (max_acc s1) (take i accs) \<and>
        epoch_step fw e (epochs ! i) (S ! i) (accs ! i) (S ! Suc i)"
        by blast
      then show ?thesis using Suc m1 by simp
    qed
  qed
  have mx': "max_acc st' = foldl max (max_acc st) (tmp # accs)"
    using mx m1 by simp
  have b': "files st' (best_path e) = files st (best_path e) \<and> max_acc st' = max_acc st \<or>
      (\<exists>j<length (ep # epochs).
         max_acc ((st # S) ! j) < (tmp # accs) ! j \<and> (tmp # accs) ! j = max_acc st' \<and>
         files st' (best_path e) = files ((st # S) ! Suc j) (best_path e))"
    using b
  proof
    assume left: "files st' (best_path e) = files s1 (best_path e) \<and> max_acc st' = max_acc s1"
    show ?thesis
    proof (cases "max_acc st < tmp")
      case True
      with er have "max_acc s1 = tmp" by simp
      with True left z have "max_acc ((st # S) ! 0) < (tmp # accs) ! 0 \<and>
         (tmp # accs) ! 0 = max_acc st' \<and>
         files st' (best_path e) = files ((st # S) ! Suc 0) (best_path e)"
        by simp
      then show ?thesis by (intro disjI2 exI [of _ 0]) simp
    next
      case False
      with er have "files s1 = files st \<and> max_acc s1 = max_acc st" by simp
      with left show ?thesis by simp
    qed
  next
    assume "\<exists>j<length epochs.
         max_acc (S ! j) < accs ! j \<and> accs ! j = max_acc st' \<and>
         files st' (best_path e) = files (S ! Suc j) (best_path e)"
    then obtain j where "j < length epochs" and
      "max_acc (S ! j) < accs ! j \<and> accs ! j = max_acc st' \<and>
         files st' (best_path e) = files (S ! Suc j) (best_path e)"
      by blast
    then show ?thesis by (intro disjI2 exI [of _ "Suc j"]) simp
  qed
  show ?case
    using l1 l2 en k' mx' b'
    by (intro exI [of _ "st # S"] exI [of _ "tmp # accs"]) simp
qed

section \<open>Writing the best checkpoint\<close>

lemma epoch_step_files:
  assumes "epoch_step fw e ep s tmp s'"
  shows "\<exists>st1 acc st2.
     train_part fw e (adjust_learning_rate fw ep s) = Inr (st1, acc) \<and>
     run_test fw e (env_adversary e) ep st1 = Inr (tmp, st2) \<and>
     (if max_acc s < tmp
      then files s' =
             (files s)(best_path e \<mapsto>
                \<lparr>ck_net = fw_state_dict fw (net st2), ck_acc = acc, ck_epoch = ep,
                 ck_rng_state = rng st2\<rparr>) \<and>
           saves_of (trace s') = saves_of (trace s) @ [best_path e] \<and>
           max_acc s' = tmp
      else files s' = files s \<and> dirs s' = dirs s \<and>
           saves_of (trace s') = saves_of (trace s) \<and> max_acc s' = max_acc s)"
proof -
  from assms obtain st1 acc st2 where
    tp: "train_part fw e (adjust_learning_rate fw ep s) = Inr (st1, acc)" and
    rt: "run_test fw e (env_adversary e) ep st1 = Inr (tmp, st2)" and
    f: "files st2 = files s" "dirs st2 = dirs s"
       "saves_of (trace st2) = saves_of (trace s)" "max_acc st2 = max_acc s" and
    r: "s' = (if max_acc s < tmp then save_best fw e acc ep (st2\<lparr>max_acc := tmp\<rparr>) else st2)"
    unfolding epoch_step_def by blast
  have "if max_acc s < tmp
      then files s' =
             (files s)(best_path e \<mapsto>
                \<lparr>ck_net = fw_state_dict fw (net st2), ck_acc = acc, ck_epoch = ep,
                 ck_rng_state = rng st2\<rparr>) \<and>
           saves_of (trace s') = saves_of (trace s) @ [best_path e] \<and>
           max_acc s' = tmp
      else files s' = files s \<and> dirs s' = dirs s \<and>
           saves_of (trace s') = saves_of (trace s) \<and> max_acc s' = max_acc s"
    using r f save_best_effect [of fw e acc ep "st2\<lparr>max_acc := tmp\<rparr>"]
    by (cases "max_acc s < tmp") simp_all
  with tp rt show ?thesis by blast
qed

lemma train_checkpoint:
  assumes "train fw e ep st = Inr st'"
  shows "\<exists>st1 acc tmp st2.
      train_part fw e st = Inr (st1, acc) \<and>
      run_test fw e (env_adversary e) ep st1 = Inr (tmp, st2) \<and>
      (if max_acc st < tmp
       then files st' =
              (files st)(best_path e \<mapsto>
                 \<lparr>ck_net = fw_state_dict fw (net st2), ck_acc = acc, ck_epoch = ep,
                  ck_rng_state = rng st2\<rparr>) \<and>
            saves_of (trace st') = saves_of (trace st) @ [best_path e] \<and>
            max_acc st' = tmp
       else files st' = files st \<and> dirs st' = dirs st \<and>
            saves_of (trace st') = saves_of (trace st) \<and> max_acc st' = max_acc st) \<and>
      max_acc st' = max (max_acc st) tmp"
proof -
  from train_cases [OF assms] obtain st1 acc tmp st2 where
    tp: "train_part fw e st = Inr (st1, acc)" and
    rt: "run_test fw e (env_adversary e) ep st1 = Inr (tmp, st2)" and
    r: "st' = (if max_acc st2 < tmp then save_best fw e acc ep (st2\<lparr>max_acc := tmp\<rparr>) else st2)"
    by blast
  note f1 = train_part_frame [OF tp]
  note f2 = run_test_effect [OF rt]
  have m: "max_acc st2 = max_acc st" using f1 f2 by simp
  have branch: "if max_acc st < tmp
       then files st' =
              (files st)(best_path e \<mapsto>
                 \<lparr>ck_net = fw_state_dict fw (net st2), ck_acc = acc, ck_epoch = ep,
                  ck_rng_state = rng st2\<rparr>) \<and>
            saves_of (trace st') = saves_of (trace st) @ [best_path e] \<and>
            max_acc st' = tmp
       else files st' = files st \<and> dirs st' = dirs st \<and>
            saves_of (trace st') = saves_of (trace st) \<and> max_acc st' = max_acc st"
    using r m f1 f2 save_best_effect [of fw e acc ep "st2\<lparr>max_acc := tmp\<rparr>"]
    by (cases "max_acc st < tmp") simp_all
  then have "max_acc st' = max (max_acc st) tmp"
    by (auto split: if_splits)
  with tp rt branch show ?thesis by blast
qed

lemma toy_two_epochs:
  "map_sum id (\<lambda>s. (max_acc s, saves_of (trace s)))
     (epoch_loop toy_fw (build_env toy_args) [0, 1] toy_st0) =
   Inr (100, [''./checkpoint/bestCIFAR10''])"
  by (simp add: epoch_loop_def adjust_learning_rate_def train_def train_part_def trainloader_def
      train_batches_def train_batch_def
      py_range_def upto.simps inner_iteration_def toy_fw_def build_env_def toy_args_def
      default_args_def toy_st0_def zeros_def const_image_def tadd_def tscale_def tsign_def
      tclamp_def clamp_def no_counts_def eq_count_def Let_def test_def run_test_def
      testloader_def test_batch_def save_best_def saves_of_def best_path_def)

text \<open>
C6. During training a checkpoint that holds the network state, the accuracy of the
  epoch, the epoch number and the random state is written to \<open>'./checkpoint/best'\<close>
  followed by the datasets name if and only if the PGD-20 test accuracy of the epoch
  strictly exceeds the running maximum; when it does not, no file and no directory is
  created or changed, nothing is saved, and the running maximum stays as it is. The
  running maximum is 0 at start-up and is carried through the epoch loop: before the
  epoch at position \<open>j\<close> it is the maximum of the value the loop started with and the
  PGD-20 test accuracies of all the epochs before, and after the loop it is the maximum
  over all epochs.
\<close>

theorem checkpoint_written_iff_new_best:
  "(\<forall>ep st st'. train fw (build_env a) ep st = Inr st' \<longrightarrow>
      (\<exists>st1 acc tmp st2.
         train_part fw (build_env a) st = Inr (st1, acc) \<and>
         run_test fw (build_env a) (LinfPGDAttack (8 / 255) 20 (2 / 255) True 0 1 False) ep st1
           = Inr (tmp, st2) \<and>
         (if max_acc st < tmp
          then files st' =
                 (files st)(''./checkpoint/best'' @ datasets a \<mapsto>
                    \<lparr>ck_net = fw_state_dict fw (net st2), ck_acc = acc, ck_epoch = ep,
                     ck_rng_state = rng st2\<rparr>) \<and>
               saves_of (trace st') = saves_of (trace st) @ [''./checkpoint/best'' @ datasets a] \<and>
               max_acc st' = tmp
          else files st' = files st \<and> dirs st' = dirs st \<and>
               saves_of (trace st') = saves_of (trace st) \<and> max_acc st' = max_acc st) \<and>
         max_acc st' = max (max_acc st) tmp)) \<and>
   (\<forall>k st0. startup fw a d f = Inr (k, st0) \<longrightarrow> max_acc st0 = 0) \<and>
   (\<forall>epochs st st'. epoch_loop fw (build_env a) epochs st = Inr st' \<longrightarrow>
      (\<exists>S accs.
         length S = Suc (length epochs) \<and> length accs = length epochs \<and>
         S ! 0 = st \<and> S ! length epochs = st' \<and>
         (\<forall>j<length epochs.
            max_acc (S ! j) = foldl max (max_acc st) (take j accs) \<and>
            (\<exists>st1 acc st2.
               train_part fw (build_env a) (adjust_learning_rate fw (epochs ! j) (S ! j))
                 = Inr (st1, acc) \<and>
               run_test fw (build_env a) (LinfPGDAttack (8 / 255) 20 (2 / 255) True 0 1 False)
                 (epochs ! j) st1 = Inr (accs ! j, st2) \<and>
               (if foldl max (max_acc st) (take j accs) < accs ! j
                then files (S ! Suc j) =
                       (files (S ! j))(''./checkpoint/best'' @ datasets a \<mapsto>
                          \<lparr>ck_net = fw_state_dict fw (net st2), ck_acc = acc,
                           ck_epoch = epochs ! j, ck_rng_state = rng st2\<rparr>) \<and>
                     saves_of (trace (S ! Suc j)) =
                       saves_of (trace (S ! j)) @ [''./checkpoint/best'' @ datasets a] \<and>
                     max_acc (S ! Suc j) = accs ! j
                else files (S ! Suc j) = files (S ! j) \<and> dirs (S ! Suc j) = dirs (S ! j) \<and>
                     saves_of (trace (S ! Suc j)) = saves_of (trace (S ! j)) \<and>
                     max_acc (S ! Suc j) = max_acc (S ! j)))) \<and>
         max_acc st' = foldl max (max_acc st) accs))"
proof (intro conjI allI impI)
  have adv: "env_adversary (build_env a) = LinfPGDAttack (8 / 255) 20 (2 / 255) True 0 1 False"
    by (simp add: build_env_def adversary_def)
  have bp: "best_path (build_env a) = ''./checkpoint/best'' @ datasets a"
    by (simp add: best_path_def build_env_def)
  {
    fix ep st st' assume "train fw (build_env a) ep st = Inr st'"
    from train_checkpoint [OF this]
    show "\<exists>st1 acc tmp st2.
         train_part fw (build_env a) st = Inr (st1, acc) \<and>
         run_test fw (build_env a) (LinfPGDAttack (8 / 255) 20 (2 / 255) True 0 1 False) ep st1
           = Inr (tmp, st2) \<and>
         (if max_acc st < tmp
          then files st' =
                 (files st)(''./checkpoint/best'' @ datasets a \<mapsto>
                    \<lparr>ck_net = fw_state_dict fw (net st2), ck_acc = acc, ck_epoch = ep,
                     ck_rng_state = rng st2\<rparr>) \<and>
               saves_of (trace st') = saves_of (trace st) @ [''./checkpoint/best'' @ datasets a] \<and>
               max_acc st' = tmp
          else files st' = files st \<and> dirs st' = dirs st \<and>
               saves_of (trace st') = saves_of (trace st) \<and> max_acc st' = max_acc st) \<and>
         max_acc st' = max (max_acc st) tmp"
      unfolding adv bp .
  }
  {
    fix k st0 assume "startup fw a d f = Inr (k, st0)"
    from startup_initial [OF this] show "max_acc st0 = 0" by simp
  }
  {
    fix epochs st st' assume "epoch_loop fw (build_env a) epochs st = Inr st'"
    from epoch_loop_chain [OF this] obtain S accs where
      l1: "length S = Suc (length epochs)" and l2: "length accs = length epochs" and
      z: "S ! 0 = st" and en: "S ! length epochs = st'" and
      k: "\<forall>j<length epochs.
        max_acc (S ! j) = foldl max (max_acc st) (take j accs) \<and>
        epoch_step fw (build_env a) (epochs ! j) (S ! j) (accs ! j) (S ! Suc j)" and
      mx: "max_acc st' = foldl max (max_acc st) accs"
      by blast
    have "\<forall>j<length epochs.
            max_acc (S ! j) = foldl max (max_acc st) (take j accs) \<and>
            (\<exists>st1 acc st2.
               train_part fw (build_env a) (adjust_learning_rate fw (epochs ! j) (S ! j))
                 = Inr (st1, acc) \<and>
               run_test fw (build_env a) (LinfPGDAttack (8 / 255) 20 (2 / 255) True 0 1 False)
                 (epochs ! j) st1 = Inr (accs ! j, st2) \<and>
               (if foldl max (max_acc st) (take j accs) < accs ! j
                then files (S ! Suc j) =
                       (files (S ! j))(''./checkpoint/best'' @ datasets a \<mapsto>
                          \<lparr>ck_net = fw_state_dict fw (net st2), ck_acc = acc,
                           ck_epoch = epochs ! j, ck_rng_state = rng st2\<rparr>) \<and>
                     saves_of (trace (S ! Suc j)) =
                       saves_of (trace (S ! j)) @ [''./checkpoint/best'' @ datasets a] \<and>
                     max_acc (S ! Suc j) = accs ! j
                else files (S ! Suc j) = files (S ! j) \<and> dirs (S ! Suc j) = dirs (S ! j) \<and>
                     saves_of (trace (S ! Suc j)) = saves_of (trace (S ! j)) \<and>
                     max_acc (S ! Suc j) = max_acc (S ! j)))"
    proof (intro allI impI)
      fix j assume "j < length epochs"
      with k have m: "max_acc (S ! j) = foldl max (max_acc st) (take j accs)" and
        es: "epoch_step fw (build_env a) (epochs ! j) (S ! j) (accs ! j) (S ! Suc j)"
        by blast+
      from epoch_step_files [OF es] m
      show "max_acc (S ! j) = foldl max (max_acc st) (take j accs) \<and>
            (\<exists>st1 acc st2.
               train_part fw (build_env a) (adjust_learning_rate fw (epochs ! j) (S ! j))
                 = Inr (st1, acc) \<and>
               run_test fw (build_env a) (LinfPGDAttack (8 / 255) 20 (2 / 255) True 0 1 False)
                 (epochs ! j) st1 = Inr (accs ! j, st2) \<and>
               (if foldl max (max_acc st) (take j accs) < accs ! j
                then files (S ! Suc j) =
                       (files (S ! j))(''./checkpoint/best'' @ datasets a \<mapsto>
                          \<lparr>ck_net = fw_state_dict fw (net st2), ck_acc = acc,
                           ck_epoch = epochs ! j, ck_rng_state = rng st2\<rparr>) \<and>
                     saves_of (trace (S ! Suc j)) =
                       saves_of (trace (S ! j)) @ [''./checkpoint/best'' @ datasets a] \<and>
                     max_acc (S ! Suc j) = accs ! j
                else files (S ! Suc j) = files (S ! j) \<and> dirs (S ! Suc j) = dirs (S ! j) \<and>
                     saves_of (trace (S ! Suc j)) = saves_of (trace (S ! j)) \<and>
                     max_acc (S ! Suc j) = max_acc (S ! j)))"
        unfolding adv bp by simp
    qed
    with l1 l2 z en mx
    show "\<exists>S accs.
         length S = Suc (length epochs) \<and> length accs = length epochs \<and>
         S ! 0 = st \<and> S ! length epochs = st' \<and>
         (\<forall>j<length epochs.
            max_acc (S ! j) = foldl max (max_acc st) (take j accs) \<and>
            (\<exists>st1 acc st2.
               train_part fw (build_env a) (adjust_learning_rate fw (epochs ! j) (S ! j))
                 = Inr (st1, acc) \<and>
               run_test fw (build_env a) (LinfPGDAttack (8 / 255) 20 (2 / 255) True 0 1 False)
                 (epochs ! j) st1 = Inr (accs ! j, st2) \<and>
               (if foldl max (max_acc st) (take j accs) < accs ! j
                then files (S ! Suc j) =
                       (files (S ! j))(''./checkpoint/best'' @ datasets a \<mapsto>
                          \<lparr>ck_net = fw_state_dict fw (net st2), ck_acc = acc,
                           ck_epoch = epochs ! j, ck_rng_state = rng st2\<rparr>) \<and>
                     saves_of (trace (S ! Suc j)) =
                       saves_of (trace (S ! j)) @ [''./checkpoint/best'' @ datasets a] \<and>
                     max_acc (S ! Suc j) = accs ! j
                else files (S ! Suc j) = files (S ! j) \<and> dirs (S ! Suc j) = dirs (S ! j) \<and>
                     saves_of (trace (S ! Suc j)) = saves_of (trace (S ! j)) \<and>
                     max_acc (S ! Suc j) = max_acc (S ! j)))) \<and>
         max_acc st' = foldl max (max_acc st) accs"
      by (intro exI [of _ S] exI [of _ accs]) simp
  }
qed

theorem checkpoint_written_witness:
  "\<exists>st' S accs.
     epoch_loop toy_fw (build_env toy_args) [0, 1] toy_st0 = Inr st' \<and>
     length S = 3 \<and> length accs = 2 \<and> S ! 0 = toy_st0 \<and> S ! 2 = st' \<and>
     max_acc st' = foldl max 0 accs \<and> max_acc st' = 100 \<and>
     saves_of (trace st') = [''./checkpoint/bestCIFAR10'']"
proof -
  obtain st' where t: "epoch_loop toy_fw (build_env toy_args) [0, 1] toy_st0 = Inr st'"
    using toy_two_epochs
    by (cases "epoch_loop toy_fw (build_env toy_args) [0, 1] toy_st0") auto
  have v: "max_acc st' = 100" "saves_of (trace st') = [''./checkpoint/bestCIFAR10'']"
    using toy_two_epochs t by simp_all
  have m0: "max_acc toy_st0 = 0"
    by (simp add: toy_st0_def)
  from checkpoint_written_iff_new_best [of toy_fw toy_args "{}" Map.empty] t
  obtain S accs where
    "length S = Suc (length [0::int, 1])" and "length accs = length [0::int, 1]" and
    "S ! 0 = toy_st0" and "S ! length [0::int, 1] = st'" and
    "max_acc st' = foldl max (max_acc toy_st0) accs"
    by blast
  then have "length S = 3 \<and> length accs = 2 \<and> S ! 0 = toy_st0 \<and> S ! 2 = st' \<and>
     max_acc st' = foldl max 0 accs"
    using m0 by (simp add: numeral_2_eq_2 numeral_3_eq_3)
  with t v show ?thesis by blast
qed

section \<open>Evaluation, batch by batch\<close>

lemma foldl_chain:
  "\<exists>T. length T = Suc (length xs) \<and> T ! 0 = s \<and> T ! length xs = foldl g s xs \<and>
       (\<forall>j<length xs. T ! Suc j = g (T ! j) (xs ! j))"
proof (induction xs arbitrary: s)
  case Nil
  show ?case by (intro exI [of _ "[s]"]) simp
next
  case (Cons x xs)
  from Cons.IH [of "g s x"] obtain T where
    l: "length T = Suc (length xs)" and z: "T ! 0 = g s x" and
    e: "T ! length xs = foldl g (g s x) xs" and
    k: "\<forall>j<length xs. T ! Suc j = g (T ! j) (xs ! j)"
    by blast
  have "\<forall>j<length (x # xs). (s # T) ! Suc j = g ((s # T) ! j) ((x # xs) ! j)"
  proof (intro allI impI)
    fix j assume "j < length (x # xs)"
    then show "(s # T) ! Suc j = g ((s # T) ! j) ((x # xs) ! j)"
      using z k by (cases j) simp_all
  qed
  with l e show ?case by (intro exI [of _ "s # T"]) simp
qed

lemma run_test_evaluated:
  assumes "run_test fw e atk ep st = Inr (acc, st')"
  shows "evaluated_under fw (testloader fw e) atk st acc st'"
proof -
  from foldl_chain [of "testloader fw e" "(st\<lparr>net := fw_eval_mode fw (net st)\<rparr>, 0, 0)"
      "test_batch fw atk"]
  obtain T where
    l: "length T = Suc (length (testloader fw e))" and
    z: "T ! 0 = (st\<lparr>net := fw_eval_mode fw (net st)\<rparr>, 0, 0)" and
    e: "T ! length (testloader fw e) =
          foldl (test_batch fw atk) (st\<lparr>net := fw_eval_mode fw (net st)\<rparr>, 0, 0) (testloader fw e)" and
    k: "\<forall>j<length (testloader fw e). T ! Suc j = test_batch fw atk (T ! j) (testloader fw e ! j)"
    by blast
  have step: "\<forall>j<length (testloader fw e).
           case (testloader fw e ! j, T ! j) of
             ((inputs, targets), (s, k, n)) \<Rightarrow>
               let (adv, net1, rng1) = fw_perturb fw atk (net s) inputs targets (rng s);
                   (outputs, net2) = fw_forward fw net1 adv
               in T ! Suc j =
                    (s\<lparr>net := net2, rng := rng1,
                       trace := trace s @ [Perturb atk, Forward adv]\<rparr>,
                     k + eq_count (fw_argmax fw outputs) targets,
                     n + length targets)"
    using k by (simp add: test_batch_def split_def Let_def)
  have fin: "case T ! length (testloader fw e) of
           (s, k, n) \<Rightarrow> s = st' \<and> n \<noteq> 0 \<and> acc = 100 * real k / real n"
    using assms e by (auto simp: run_test_def split: prod.splits if_splits)
  show ?thesis
    unfolding evaluated_under_def
    by (intro exI [of _ T] conjI l z step fin)
qed

lemma startup_files:
  assumes "startup fw a d f = Inr (k, st0)"
  shows "files st0 = f \<and> dirs st0 = d"
  using assms
  by (auto simp: startup_def split: if_splits prod.splits sum.splits option.splits)

lemma str_int_25: "str_int 25 = ''25''"
  by code_simp

lemma toy_resume_main:
  "map_sum id (\<lambda>s. (attacks_of (trace s), saves_of (trace s), max_acc s))
     (main toy_fw toy_resume_args {''checkpoint''} toy_resume_files) =
   Inr ([LinfPGDAttack (8 / 255) 20 (2 / 255) True 0 1 False,
         LinfPGDAttack (8 / 255) 20 (2 / 255) True 0 1 False,
         LinfPGDAttack (8 / 255) 50 (2 / 255) True 0 1 False,
         FGSM (8 / 255) 0 1 False],
        [''./checkpoint/bestCIFAR10''], 100)"
  by (simp add: main_def startup_def str_int_25 toy_resume_args_def toy_args_def default_args_def
      toy_resume_files_def toy_ckpt_def toy_fw_def build_env_def py_range2_def upto.simps
      epoch_loop_def adjust_learning_rate_def train_def train_part_def trainloader_def
      train_batches_def train_batch_def py_range_def inner_iteration_def zeros_def
      const_image_def tadd_def tscale_def tsign_def tclamp_def clamp_def no_counts_def
      final_eval_def best_path_def test_def test_50_def test_fgsm_def run_test_def
      testloader_def test_batch_def eq_count_def Let_def attacks_of_def saves_of_def
      save_best_def adversary_def adversary_50_def adversary_FGSM_def)

section \<open>Loading the best checkpoint and the three attacks\<close>

text \<open>
C7. Whenever the script runs to its end, the epoch loop has completed, the checkpoint
  stored under \<open>'./checkpoint/best'\<close> followed by the datasets name is loaded into the
  network, the network is put in evaluation mode, and it is evaluated under exactly three
  attacks, in this order and over the whole non-empty test loader each: L-infinity PGD
  with 20 iterations, L-infinity PGD with 50 iterations, and FGSM; each has eps 8/255 and
  clips to [0, 1], and both PGD attacks have step size 2/255. To evaluate is, for every
  test batch in order, to let the attack perturb the batch against the current network,
  to apply the network to the perturbed batch and to count the predictions that equal the
  labels. The checkpoint that is loaded is the best one training saved: every epoch of
  the loop has a PGD-20 test accuracy at most the final running maximum, an epoch that
  exceeds the running maximum writes the network state its test left, and either no epoch
  has written the file (it is then the file that was there before the run, and the running
  maximum is still 0) or the file is the checkpoint written by an epoch whose PGD-20
  test accuracy is that final maximum.
\<close>

theorem final_evaluation_under_three_attacks:
  assumes "main fw a d f = Inr st'"
  shows "\<exists>k st0 st1 S accs ck acc1 s1 acc2 s2 acc3.
           startup fw a d f = Inr (k, st0) \<and>
           epoch_loop fw (build_env a) (py_range2 k 27) st0 = Inr st1 \<and>
           length S = Suc (length (py_range2 k 27)) \<and>
           length accs = length (py_range2 k 27) \<and>
           S ! 0 = st0 \<and> S ! length (py_range2 k 27) = st1 \<and>
           (\<forall>j<length (py_range2 k 27).
              accs ! j \<le> max_acc st1 \<and>
              max_acc (S ! j) = foldl max 0 (take j accs) \<and>
              (\<exists>t acc t'.
                 train_part fw (build_env a)
                   (adjust_learning_rate fw (py_range2 k 27 ! j) (S ! j)) = Inr (t, acc) \<and>
                 run_test fw (build_env a) (LinfPGDAttack (8 / 255) 20 (2 / 255) True 0 1 False)
                   (py_range2 k 27 ! j) t = Inr (accs ! j, t') \<and>
                 (if max_acc (S ! j) < accs ! j
                  then files (S ! Suc j) =
                         (files (S ! j))(''./checkpoint/best'' @ datasets a \<mapsto>
                            \<lparr>ck_net = fw_state_dict fw (net t'), ck_acc = acc,
                             ck_epoch = py_range2 k 27 ! j, ck_rng_state = rng t'\<rparr>)
                  else files (S ! Suc j) = files (S ! j)))) \<and>
           (files st1 (''./checkpoint/best'' @ datasets a) = f (''./checkpoint/best'' @ datasets a) \<and>
              max_acc st1 = 0 \<or>
            (\<exists>j<length (py_range2 k 27).
               max_acc (S ! j) < accs ! j \<and> accs ! j = max_acc st1 \<and>
               files (S ! Suc j) (''./checkpoint/best'' @ datasets a) = Some ck)) \<and>
           files st1 (''./checkpoint/best'' @ datasets a) = Some ck \<and>
           run_test fw (build_env a) (LinfPGDAttack (8 / 255) 20 (2 / 255) True 0 1 False) 111
             (st1\<lparr>net := fw_eval_mode fw (fw_load_state_dict fw (ck_net ck) (net st1)),
                  trace := trace st1 @ [TorchLoad (''./checkpoint/best'' @ datasets a)]\<rparr>)
             = Inr (acc1, s1) \<and>
           run_test fw (build_env a) (LinfPGDAttack (8 / 255) 50 (2 / 255) True 0 1 False) 111 s1
             = Inr (acc2, s2) \<and>
           run_test fw (build_env a) (FGSM (8 / 255) 0 1 False) 111 s2 = Inr (acc3, st') \<and>
           evaluated_under fw (testloader fw (build_env a))
             (LinfPGDAttack (8 / 255) 20 (2 / 255) True 0 1 False)
             (st1\<lparr>net := fw_eval_mode fw (fw_load_state_dict fw (ck_net ck) (net st1)),
                  trace := trace st1 @ [TorchLoad (''./checkpoint/best'' @ datasets a)]\<rparr>)
             acc1 s1 \<and>
           evaluated_under fw (testloader fw (build_env a))
             (LinfPGDAttack (8 / 255) 50 (2 / 255) True 0 1 False) s1 acc2 s2 \<and>
           evaluated_under fw (testloader fw (build_env a)) (FGSM (8 / 255) 0 1 False) s2 acc3 st' \<and>
           testloader fw (build_env a) \<noteq> [] \<and>
           attacks_of (trace st') =
             attacks_of (trace st1) @
             replicate (length (testloader fw (build_env a)))
               (LinfPGDAttack (8 / 255) 20 (2 / 255) True 0 1 False) @
             replicate (length (testloader fw (build_env a)))
               (LinfPGDAttack (8 / 255) 50 (2 / 255) True 0 1 False) @
             replicate (length (testloader fw (build_env a))) (FGSM (8 / 255) 0 1 False)"
proof -
  from main_cases [OF assms] obtain k st0 st1 where
    s: "startup fw a d f = Inr (k, st0)" and
    l: "epoch_loop fw (build_env a) (py_range2 k 27) st0 = Inr st1" and
    fe: "final_eval fw (build_env a) st1 = Inr st'"
    by blast
  have adv: "env_adversary (build_env a) = LinfPGDAttack (8 / 255) 20 (2 / 255) True 0 1 False"
       "env_adversary_50 (build_env a) = LinfPGDAttack (8 / 255) 50 (2 / 255) True 0 1 False"
       "env_adversary_FGSM (build_env a) = FGSM (8 / 255) 0 1 False"
    by (simp_all add: build_env_def adversary_def adversary_50_def adversary_FGSM_def)
  have bp: "best_path (build_env a) = ''./checkpoint/best'' @ datasets a"
    by (simp add: best_path_def build_env_def)
  from startup_initial [OF s] have m0: "max_acc st0 = 0" by simp
  from startup_files [OF s] have f0: "files st0 = f" by simp
  from final_eval_cases [OF fe] obtain ck acc1 s1 acc2 s2 acc3 where
    c: "files st1 (''./checkpoint/best'' @ datasets a) = Some ck" and
    t1: "run_test fw (build_env a) (LinfPGDAttack (8 / 255) 20 (2 / 255) True 0 1 False) 111
             (st1\<lparr>net := fw_eval_mode fw (fw_load_state_dict fw (ck_net ck) (net st1)),
                  trace := trace st1 @ [TorchLoad (''./checkpoint/best'' @ datasets a)]\<rparr>)
             = Inr (acc1, s1)" and
    t2: "run_test fw (build_env a) (LinfPGDAttack (8 / 255) 50 (2 / 255) True 0 1 False) 111 s1
             = Inr (acc2, s2)" and
    t3: "run_test fw (build_env a) (FGSM (8 / 255) 0 1 False) 111 s2 = Inr (acc3, st')"
    unfolding adv bp by blast
  note e1 = run_test_evaluated [OF t1] and e2 = run_test_evaluated [OF t2]
    and e3 = run_test_evaluated [OF t3]
  have ne: "testloader fw (build_env a) \<noteq> []"
    by (rule run_test_nonempty [OF t1])
  have at: "attacks_of (trace st') =
             attacks_of (trace st1) @
             replicate (length (testloader fw (build_env a)))
               (LinfPGDAttack (8 / 255) 20 (2 / 255) True 0 1 False) @
             replicate (length (testloader fw (build_env a)))
               (LinfPGDAttack (8 / 255) 50 (2 / 255) True 0 1 False) @
             replicate (length (testloader fw (build_env a))) (FGSM (8 / 255) 0 1 False)"
    using run_test_effect [OF t1] run_test_effect [OF t2] run_test_effect [OF t3]
    by (simp add: attacks_of_append attacks_of_def)
  from epoch_loop_chain [OF l] obtain S accs where
    l1: "length S = Suc (length (py_range2 k 27))" and
    l2: "length accs = length (py_range2 k 27)" and
    z: "S ! 0 = st0" and en: "S ! length (py_range2 k 27) = st1" and
    ch: "\<forall>j<length (py_range2 k 27).
        max_acc (S ! j) = foldl max (max_acc st0) (take j accs) \<and>
        epoch_step fw (build_env a) (py_range2 k 27 ! j) (S ! j) (accs ! j) (S ! Suc j)" and
    mx: "max_acc st1 = foldl max (max_acc st0) accs" and
    best: "files st1 (best_path (build_env a)) = files st0 (best_path (build_env a)) \<and>
             max_acc st1 = max_acc st0 \<or>
      (\<exists>j<length (py_range2 k 27).
         max_acc (S ! j) < accs ! j \<and> accs ! j = max_acc st1 \<and>
         files st1 (best_path (build_env a)) = files (S ! Suc j) (best_path (build_env a)))"
    by blast
  have per: "\<forall>j<length (py_range2 k 27).
              accs ! j \<le> max_acc st1 \<and>
              max_acc (S ! j) = foldl max 0 (take j accs) \<and>
              (\<exists>t acc t'.
                 train_part fw (build_env a)
                   (adjust_learning_rate fw (py_range2 k 27 ! j) (S ! j)) = Inr (t, acc) \<and>
                 run_test fw (build_env a) (LinfPGDAttack (8 / 255) 20 (2 / 255) True 0 1 False)
                   (py_range2 k 27 ! j) t = Inr (accs ! j, t') \<and>
                 (if max_acc (S ! j) < accs ! j
                  then files (S ! Suc j) =
                         (files (S ! j))(''./checkpoint/best'' @ datasets a \<mapsto>
                            \<lparr>ck_net = fw_state_dict fw (net t'), ck_acc = acc,
                             ck_epoch = py_range2 k 27 ! j, ck_rng_state = rng t'\<rparr>)
                  else files (S ! Suc j) = files (S ! j)))"
  proof (intro allI impI)
    fix j assume j: "j < length (py_range2 k 27)"
    from j l2 have "accs ! j \<le> foldl max (max_acc st0) accs"
      by (intro foldl_max_elem) simp
    then have a: "accs ! j \<le> max_acc st1" by (simp add: mx)
    from ch j have b: "max_acc (S ! j) = foldl max 0 (take j accs)"
      by (simp add: m0)
    from ch j have "epoch_step fw (build_env a) (py_range2 k 27 ! j) (S ! j) (accs ! j) (S ! Suc j)"
      by simp
    from epoch_step_files [OF this] obtain t acc t' where
      tp: "train_part fw (build_env a)
             (adjust_learning_rate fw (py_range2 k 27 ! j) (S ! j)) = Inr (t, acc)" and
      rt: "run_test fw (build_env a) (LinfPGDAttack (8 / 255) 20 (2 / 255) True 0 1 False)
             (py_range2 k 27 ! j) t = Inr (accs ! j, t')" and
      fi: "if max_acc (S ! j) < accs ! j
           then files (S ! Suc j) =
                  (files (S ! j))(''./checkpoint/best'' @ datasets a \<mapsto>
                     \<lparr>ck_net = fw_state_dict fw (net t'), ck_acc = acc,
                      ck_epoch = py_range2 k 27 ! j, ck_rng_state = rng t'\<rparr>)
           else files (S ! Suc j) = files (S ! j)"
      unfolding adv bp by (auto split: if_splits)
    from a b tp rt fi
    show "accs ! j \<le> max_acc st1 \<and>
              max_acc (S ! j) = foldl max 0 (take j accs) \<and>
              (\<exists>t acc t'.
                 train_part fw (build_env a)
                   (adjust_learning_rate fw (py_range2 k 27 ! j) (S ! j)) = Inr (t, acc) \<and>
                 run_test fw (build_env a) (LinfPGDAttack (8 / 255) 20 (2 / 255) True 0 1 False)
                   (py_range2 k 27 ! j) t = Inr (accs ! j, t') \<and>
                 (if max_acc (S ! j) < accs ! j
                  then files (S ! Suc j) =
                         (files (S ! j))(''./checkpoint/best'' @ datasets a \<mapsto>
                            \<lparr>ck_net = fw_state_dict fw (net t'), ck_acc = acc,
                             ck_epoch = py_range2 k 27 ! j, ck_rng_state = rng t'\<rparr>)
                  else files (S ! Suc j) = files (S ! j)))"
      by blast
  qed
  have best': "files st1 (''./checkpoint/best'' @ datasets a) = f (''./checkpoint/best'' @ datasets a) \<and>
              max_acc st1 = 0 \<or>
            (\<exists>j<length (py_range2 k 27).
               max_acc (S ! j) < accs ! j \<and> accs ! j = max_acc st1 \<and>
               files (S ! Suc j) (''./checkpoint/best'' @ datasets a) = Some ck)"
    using best c unfolding bp m0 f0 by auto
  from s l l1 l2 z en per best' c t1 t2 t3 e1 e2 e3 ne at show ?thesis
    by blast
qed

lemma toy_resume_startup:
  "map_sum id fst (startup toy_fw toy_resume_args {''checkpoint''} toy_resume_files) = Inr 26"
  by (simp add: startup_def str_int_25 toy_resume_args_def toy_args_def default_args_def
      toy_resume_files_def toy_ckpt_def toy_fw_def)

theorem final_evaluation_witness:
  "\<exists>st' st1 ck.
      main toy_fw toy_resume_args {''checkpoint''} toy_resume_files = Inr st' \<and>
      epoch_loop toy_fw (build_env toy_resume_args) [26]
        (snd (projr (startup toy_fw toy_resume_args {''checkpoint''} toy_resume_files))) = Inr st1 \<and>
      files st1 ''./checkpoint/bestCIFAR10'' = Some ck \<and> ck_epoch ck = 26 \<and>
      saves_of (trace st') = [''./checkpoint/bestCIFAR10''] \<and>
      attacks_of (trace st') =
        [LinfPGDAttack (8 / 255) 20 (2 / 255) True 0 1 False,
         LinfPGDAttack (8 / 255) 20 (2 / 255) True 0 1 False,
         LinfPGDAttack (8 / 255) 50 (2 / 255) True 0 1 False,
         FGSM (8 / 255) 0 1 False]"
proof -
  from toy_resume_main obtain st' where
    t: "main toy_fw toy_resume_args {''checkpoint''} toy_resume_files = Inr st'" and
    sv: "saves_of (trace st') = [''./checkpoint/bestCIFAR10'']" and
    at: "attacks_of (trace st') =
        [LinfPGDAttack (8 / 255) 20 (2 / 255) True 0 1 False,
         LinfPGDAttack (8 / 255) 20 (2 / 255) True 0 1 False,
         LinfPGDAttack (8 / 255) 50 (2 / 255) True 0 1 False,
         FGSM (8 / 255) 0 1 False]"
    by (cases "main toy_fw toy_resume_args {''checkpoint''} toy_resume_files") auto
  have ds: "datasets toy_resume_args = ''CIFAR10''"
    by (simp add: toy_resume_args_def toy_args_def default_args_def)
  have nf: "toy_resume_files ''./checkpoint/bestCIFAR10'' = None"
    by (simp add: toy_resume_files_def)
  from final_evaluation_under_three_attacks [OF t]
  have "\<exists>st1 ck.
      epoch_loop toy_fw (build_env toy_resume_args) [26]
        (snd (projr (startup toy_fw toy_resume_args {''checkpoint''} toy_resume_files))) = Inr st1 \<and>
      files st1 ''./checkpoint/bestCIFAR10'' = Some ck \<and> ck_epoch ck = 26"
  proof (elim exE conjE)
    fix k st0 st1 S accs ck acc1 s1 acc2 s2 acc3
    assume s: "startup toy_fw toy_resume_args {''checkpoint''} toy_resume_files = Inr (k, st0)"
      and l: "epoch_loop toy_fw (build_env toy_resume_args) (py_range2 k 27) st0 = Inr st1"
      and per: "\<forall>j<length (py_range2 k 27).
              accs ! j \<le> max_acc st1 \<and>
              max_acc (S ! j) = foldl max 0 (take j accs) \<and>
              (\<exists>t acc t'.
                 train_part toy_fw (build_env toy_resume_args)
                   (adjust_learning_rate toy_fw (py_range2 k 27 ! j) (S ! j)) = Inr (t, acc) \<and>
                 run_test toy_fw (build_env toy_resume_args)
                   (LinfPGDAttack (8 / 255) 20 (2 / 255) True 0 1 False)
                   (py_range2 k 27 ! j) t = Inr (accs ! j, t') \<and>
                 (if max_acc (S ! j) < accs ! j
                  then files (S ! Suc j) =
                         (files (S ! j))(''./checkpoint/best'' @ datasets toy_resume_args \<mapsto>
                            \<lparr>ck_net = fw_state_dict toy_fw (net t'), ck_acc = acc,
                             ck_epoch = py_range2 k 27 ! j, ck_rng_state = rng t'\<rparr>)
                  else files (S ! Suc j) = files (S ! j)))"
      and best: "files st1 (''./checkpoint/best'' @ datasets toy_resume_args) =
                   toy_resume_files (''./checkpoint/best'' @ datasets toy_resume_args) \<and>
              max_acc st1 = 0 \<or>
            (\<exists>j<length (py_range2 k 27).
               max_acc (S ! j) < accs ! j \<and> accs ! j = max_acc st1 \<and>
               files (S ! Suc j) (''./checkpoint/best'' @ datasets toy_resume_args) = Some ck)"
      and c: "files st1 (''./checkpoint/best'' @ datasets toy_resume_args) = Some ck"
    from s toy_resume_startup have k: "k = 26" by simp
    have r: "py_range2 k 27 = [26]"
      by (simp add: k py_range2_def upto.simps)
    from s have st0: "snd (projr (startup toy_fw toy_resume_args {''checkpoint''} toy_resume_files)) = st0"
      by simp
    from best c nf have b: "max_acc (S ! 0) < accs ! 0 \<and>
        files (S ! Suc 0) ''./checkpoint/bestCIFAR10'' = Some ck"
      by (auto simp: r ds)
    have "0 < length (py_range2 k 27)" by (simp add: r)
    from per [rule_format, OF this] have "ck_epoch ck = 26"
    proof (elim conjE exE)
      fix t acc t'
      assume "if max_acc (S ! 0) < accs ! 0
       then files (S ! Suc 0) =
              (files (S ! 0))(''./checkpoint/best'' @ datasets toy_resume_args \<mapsto>
                 \<lparr>ck_net = fw_state_dict toy_fw (net t'), ck_acc = acc,
                  ck_epoch = py_range2 k 27 ! 0, ck_rng_state = rng t'\<rparr>)
       else files (S ! Suc 0) = files (S ! 0)"
      with b have "files (S ! Suc 0) =
                         (files (S ! 0))(''./checkpoint/bestCIFAR10'' \<mapsto>
                            \<lparr>ck_net = fw_state_dict toy_fw (net t'), ck_acc = acc,
                             ck_epoch = 26, ck_rng_state = rng t'\<rparr>)"
        by (simp add: r ds)
      then have "files (S ! Suc 0) ''./checkpoint/bestCIFAR10'' =
                 Some \<lparr>ck_net = fw_state_dict toy_fw (net t'), ck_acc = acc,
                             ck_epoch = 26, ck_rng_state = rng t'\<rparr>"
        by simp
      with b have "ck = \<lparr>ck_net = fw_state_dict toy_fw (net t'), ck_acc = acc,
                             ck_epoch = 26, ck_rng_state = rng t'\<rparr>"
        by simp
      then show "ck_epoch ck = 26" by simp
    qed
    with l c show ?thesis
      by (simp add: r ds st0)
  qed
  with t sv at show ?thesis by blast
qed

section \<open>The evaluation attacks and the epsilon argument\<close>

lemma inner_iteration_epsilon_only_in_delta:
  "map_sum id (\<lambda>(s, k). (s\<lparr>delta := zeros []\<rparr>, k)) (inner_iteration fw e1 b (st, c)) =
   map_sum id (\<lambda>(s, k). (s\<lparr>delta := zeros []\<rparr>, k)) (inner_iteration fw e2 b (st, c))"
  by (cases b)
     (auto simp: inner_iteration_def tadd_def tscale_def tsign_def tclamp_def split_def Let_def)

text \<open>
C8. The three evaluation attacks are built with the constant eps 8/255 (and PGD step
  size 2/255), whatever \<open>--epsilon\<close> is: for any two values \<open>x\<close> and \<open>y\<close> of
  \<open>--epsilon\<close> the attack configurations are the same, and so are the results of \<open>test\<close>,
  \<open>test_50\<close>, \<open>test_fgsm\<close>, the final evaluation, the checkpoint write and the start-up
  on the same state. What \<open>--epsilon\<close> sets is the \<open>epsilon\<close> of the training-time buffer
  update, and in training it reaches nothing else: on the same batch and state, an inner
  iteration run with \<open>x\<close> and one run with \<open>y\<close> fail alike or return the same network,
  optimizer, counters, trace and remaining state, all but the buffer; the training loader
  and the number of inner iterations are the same too.
\<close>

theorem evaluation_attacks_ignore_epsilon:
  "env_adversary (build_env (a\<lparr>epsilon := x\<rparr>)) = LinfPGDAttack (8 / 255) 20 (2 / 255) True 0 1 False \<and>
   env_adversary_50 (build_env (a\<lparr>epsilon := x\<rparr>)) = LinfPGDAttack (8 / 255) 50 (2 / 255) True 0 1 False \<and>
   env_adversary_FGSM (build_env (a\<lparr>epsilon := x\<rparr>)) = FGSM (8 / 255) 0 1 False \<and>
   env_adversary (build_env (a\<lparr>epsilon := x\<rparr>)) = env_adversary (build_env (a\<lparr>epsilon := y\<rparr>)) \<and>
   env_adversary_50 (build_env (a\<lparr>epsilon := x\<rparr>)) = env_adversary_50 (build_env (a\<lparr>epsilon := y\<rparr>)) \<and>
   env_adversary_FGSM (build_env (a\<lparr>epsilon := x\<rparr>)) = env_adversary_FGSM (build_env (a\<lparr>epsilon := y\<rparr>)) \<and>
   test fw (build_env (a\<lparr>epsilon := x\<rparr>)) ep st = test fw (build_env (a\<lparr>epsilon := y\<rparr>)) ep st \<and>
   test_50 fw (build_env (a\<lparr>epsilon := x\<rparr>)) ep st = test_50 fw (build_env (a\<lparr>epsilon := y\<rparr>)) ep st \<and>
   test_fgsm fw (build_env (a\<lparr>epsilon := x\<rparr>)) ep st =
     test_fgsm fw (build_env (a\<lparr>epsilon := y\<rparr>)) ep st \<and>
   final_eval fw (build_env (a\<lparr>epsilon := x\<rparr>)) st = final_eval fw (build_env (a\<lparr>epsilon := y\<rparr>)) st \<and>
   save_best fw (build_env (a\<lparr>epsilon := x\<rparr>)) acc ep st =
     save_best fw (build_env (a\<lparr>epsilon := y\<rparr>)) acc ep st \<and>
   startup fw (a\<lparr>epsilon := x\<rparr>) d f = startup fw (a\<lparr>epsilon := y\<rparr>) d f \<and>
   env_epsilon (build_env (a\<lparr>epsilon := x\<rparr>)) = x \<and>
   map_sum id (\<lambda>(s, k). (s\<lparr>delta := zeros []\<rparr>, k))
     (inner_iteration fw (build_env (a\<lparr>epsilon := x\<rparr>)) b (st, c)) =
   map_sum id (\<lambda>(s, k). (s\<lparr>delta := zeros []\<rparr>, k))
     (inner_iteration fw (build_env (a\<lparr>epsilon := y\<rparr>)) b (st, c)) \<and>
   trainloader fw (build_env (a\<lparr>epsilon := x\<rparr>)) r = trainloader fw (build_env (a\<lparr>epsilon := y\<rparr>)) r \<and>
   env_m (build_env (a\<lparr>epsilon := x\<rparr>)) = env_m (build_env (a\<lparr>epsilon := y\<rparr>))"
proof -
  have t: "\<And>atk. run_test fw (build_env (a\<lparr>epsilon := x\<rparr>)) atk ep st =
                  run_test fw (build_env (a\<lparr>epsilon := y\<rparr>)) atk ep st"
    by (simp add: run_test_def testloader_def build_env_def)
  have t111: "\<And>atk s. run_test fw (build_env (a\<lparr>epsilon := x\<rparr>)) atk 111 s =
                  run_test fw (build_env (a\<lparr>epsilon := y\<rparr>)) atk 111 s"
    by (simp add: run_test_def testloader_def build_env_def)
  have adv: "env_adversary (build_env (a\<lparr>epsilon := x\<rparr>)) = LinfPGDAttack (8 / 255) 20 (2 / 255) True 0 1 False"
       "env_adversary_50 (build_env (a\<lparr>epsilon := x\<rparr>)) = LinfPGDAttack (8 / 255) 50 (2 / 255) True 0 1 False"
       "env_adversary_FGSM (build_env (a\<lparr>epsilon := x\<rparr>)) = FGSM (8 / 255) 0 1 False"
       "env_adversary (build_env (a\<lparr>epsilon := y\<rparr>)) = LinfPGDAttack (8 / 255) 20 (2 / 255) True 0 1 False"
       "env_adversary_50 (build_env (a\<lparr>epsilon := y\<rparr>)) = LinfPGDAttack (8 / 255) 50 (2 / 255) True 0 1 False"
       "env_adversary_FGSM (build_env (a\<lparr>epsilon := y\<rparr>)) = FGSM (8 / 255) 0 1 False"
    by (simp_all add: build_env_def adversary_def adversary_50_def adversary_FGSM_def)
  have bp: "best_path (build_env (a\<lparr>epsilon := x\<rparr>)) = best_path (build_env (a\<lparr>epsilon := y\<rparr>))"
    by (simp add: best_path_def build_env_def)
  have fe: "final_eval fw (build_env (a\<lparr>epsilon := x\<rparr>)) st =
            final_eval fw (build_env (a\<lparr>epsilon := y\<rparr>)) st"
    by (simp add: final_eval_def test_def test_50_def test_fgsm_def adv bp t111
          cong: option.case_cong sum.case_cong prod.case_cong)
  have sb: "save_best fw (build_env (a\<lparr>epsilon := x\<rparr>)) acc ep st =
     save_best fw (build_env (a\<lparr>epsilon := y\<rparr>)) acc ep st"
    by (simp add: save_best_def bp)
  have su: "startup fw (a\<lparr>epsilon := x\<rparr>) d f = startup fw (a\<lparr>epsilon := y\<rparr>) d f"
    by (simp add: startup_def build_env_def
          cong: option.case_cong sum.case_cong prod.case_cong if_cong)
  have ee: "env_epsilon (build_env (a\<lparr>epsilon := x\<rparr>)) = x"
    by (simp add: build_env_def)
  have ii: "map_sum id (\<lambda>(s, k). (s\<lparr>delta := zeros []\<rparr>, k))
     (inner_iteration fw (build_env (a\<lparr>epsilon := x\<rparr>)) b (st, c)) =
   map_sum id (\<lambda>(s, k). (s\<lparr>delta := zeros []\<rparr>, k))
     (inner_iteration fw (build_env (a\<lparr>epsilon := y\<rparr>)) b (st, c))"
    by (rule inner_iteration_epsilon_only_in_delta)
  have tl: "trainloader fw (build_env (a\<lparr>epsilon := x\<rparr>)) r =
            trainloader fw (build_env (a\<lparr>epsilon := y\<rparr>)) r"
    by (simp add: trainloader_def build_env_def)
  have em: "env_m (build_env (a\<lparr>epsilon := x\<rparr>)) = env_m (build_env (a\<lparr>epsilon := y\<rparr>))"
    by (simp add: build_env_def)
  show ?thesis
    using fe sb su ee ii tl em by (simp add: test_def test_50_def test_fgsm_def adv t)
qed

theorem evaluation_attacks_witness:
  "env_adversary (build_env (toy_args\<lparr>epsilon := 1 / 10\<rparr>)) =
     LinfPGDAttack (8 / 255) 20 (2 / 255) True 0 1 False \<and>
   env_adversary_50 (build_env (toy_args\<lparr>epsilon := 1 / 10\<rparr>)) =
     env_adversary_50 (build_env (toy_args\<lparr>epsilon := 0\<rparr>)) \<and>
   env_adversary_FGSM (build_env (toy_args\<lparr>epsilon := 1 / 10\<rparr>)) = FGSM (8 / 255) 0 1 False \<and>
   env_epsilon (build_env (toy_args\<lparr>epsilon := 1 / 10\<rparr>)) = 1 / 10"
  using evaluation_attacks_ignore_epsilon [where a = toy_args and x = "1 / 10" and y = 0 and fw = toy_fw and st = toy_st0
           and ep = 0 and acc = 0 and d = "{}" and f = Map.empty
           and b = "(const_image 1 1, [1])" and c = no_counts and r = 0]
  by blast

section \<open>The training input is not clamped\<close>

lemma sum_between:
  assumes "elems_between 0 1 x" and "elems_between (- r) r d"
    and "elems adv = map2 (+) (elems x) (elems d)"
  shows "elems_between (- r) (1 + r) adv"
proof -
  have "\<forall>z\<in>set (elems adv). - r \<le> z \<and> z \<le> 1 + r"
  proof
    fix z assume "z \<in> set (elems adv)"
    then obtain a b where ab: "(a, b) \<in> set (zip (elems x) (elems d))" and z: "z = a + b"
      using assms(3) by auto
    from ab have "a \<in> set (elems x)" and "b \<in> set (elems d)"
      by (auto dest: set_zip_leftD set_zip_rightD)
    with assms(1,2) have "0 \<le> a" and "a \<le> 1" and "- r \<le> b" and "b \<le> r"
      by (auto simp: elems_between_def list_all_iff)
    with z show "- r \<le> z \<and> z \<le> 1 + r" by simp
  qed
  then show ?thesis by (simp add: elems_between_def list_all_iff)
qed

lemma toy_second_forward:
  assumes v: "v = 0 \<or> v = 1"
  shows "\<exists>st1 c1 st2 c2 adv.
      inner_iteration toy_fw (build_env toy_args) (const_image 1 v, [1]) (toy_st0, no_counts)
        = Inr (st1, c1) \<and>
      inner_iteration toy_fw (build_env toy_args) (const_image 1 v, [1]) (st1, c1) = Inr (st2, c2) \<and>
      tadd (const_image 1 v) (delta st1) = Inr adv \<and>
      Forward adv \<in> set (trace st2) \<and>
      elems adv = replicate 3072 (v + (2 * v - 1) * (8 / 255))"
proof -
  have h: "shape (const_image 1 v) = shape (delta toy_st0)"
    by (simp add: const_image_def toy_st0_def zeros_def)
  from inner_iteration_step [OF h toy_grad_shape, of "build_env toy_args" "[1]" no_counts]
  obtain st1 c1 where
    r1: "inner_iteration toy_fw (build_env toy_args) (const_image 1 v, [1]) (toy_st0, no_counts)
        = Inr (st1, c1)" and
    s1: "shape (delta st1) = shape (delta toy_st0)"
    by blast
  have d1: "elems (delta st1) = replicate 3072 ((2 * v - 1) * (8 / 255))"
    using r1 v
    by (auto simp: inner_iteration_def tadd_def split_def Let_def toy_fw_def build_env_def
        toy_args_def default_args_def toy_st0_def zeros_def const_image_def tscale_def
        tsign_def tclamp_def clamp_def split: if_splits)
  have h2: "shape (const_image 1 v) = shape (delta st1)"
    using h s1 by simp
  from inner_iteration_step [OF h2 toy_grad_shape, of "build_env toy_args" "[1]" c1]
  obtain adv st2 c2 where
    a: "tadd (const_image 1 v) (delta st1) = Inr adv" and
    r2: "inner_iteration toy_fw (build_env toy_args) (const_image 1 v, [1]) (st1, c1) = Inr (st2, c2)" and
    t: "trace st2 = trace st1 @
          [ZeroGrad, Forward adv, CrossEntropy, Backward, OptimizerStep, SignAscent, Clamp]"
    by blast
  have "elems adv = replicate 3072 (v + (2 * v - 1) * (8 / 255))"
    using a h2 by (auto simp: tadd_def d1 const_image_def)
  moreover have "Forward adv \<in> set (trace st2)"
    by (simp add: t)
  ultimately show ?thesis
    using r1 r2 a by blast
qed

text \<open>
C9. In training the network is applied to \<open>inputs + delta\<close> as it is, with no clamp to
  the pixel range: every inner iteration that returns forms the elementwise sum of the
  inputs and the buffer, and the outputs, the loss, the gradient, the network and the
  buffer it returns are computed from that sum. With the inputs in [0, 1] and the buffer
  in \<open>[-epsilon, epsilon]\<close> the elements of the sum lie between \<open>-epsilon\<close> and
  \<open>1 + epsilon\<close>, and both ends are reached: in the small instance the second inner
  iteration on an image of ones applies the network to \<open>1 + epsilon\<close> everywhere, and on an
  image of zeros to \<open>-epsilon\<close> everywhere. The three evaluation attacks, unlike training,
  clip to [0, 1].
\<close>

theorem training_input_is_unclamped_sum:
  "(\<forall>inputs targets st c st' c'.
      inner_iteration fw e (inputs, targets) (st, c) = Inr (st', c') \<longrightarrow>
      (\<exists>adv d. tadd inputs (delta st) = Inr adv \<and>
         shape adv = shape inputs \<and>
         elems adv = map2 (+) (elems inputs) (elems (delta st)) \<and>
         (let net1 = fw_zero_grad fw (net st);
              (outputs, net2) = fw_forward fw net1 adv;
              loss = fw_cross_entropy fw outputs targets;
              (net3, grad) = fw_backward fw net2 adv targets;
              (opt1, net4) = fw_step fw (optimizer st) net3
          in tadd (delta st) (tscale (env_epsilon e) (tsign grad)) = Inr d \<and>
             st' = st\<lparr>net := net4, optimizer := opt1,
                        delta := tclamp d (- env_epsilon e) (env_epsilon e),
                        trace := trace st @
                          [ZeroGrad, Forward adv, CrossEntropy, Backward, OptimizerStep,
                           SignAscent, Clamp]\<rparr> \<and>
             c' = c\<lparr>train_loss := train_loss c + loss,
                     total := total c + length targets,
                     correct := correct c + eq_count (fw_argmax fw outputs) targets\<rparr>) \<and>
         (elems_between 0 1 inputs \<longrightarrow>
          elems_between (- env_epsilon e) (env_epsilon e) (delta st) \<longrightarrow>
          elems_between (- env_epsilon e) (1 + env_epsilon e) adv))) \<and>
   clip_min adversary = 0 \<and> clip_max adversary = 1 \<and>
   clip_min adversary_50 = 0 \<and> clip_max adversary_50 = 1 \<and>
   clip_min adversary_FGSM = 0 \<and> clip_max adversary_FGSM = 1 \<and>
   (\<exists>st1 c1 st2 c2 adv.
      inner_iteration toy_fw (build_env toy_args) (const_image 1 1, [1]) (toy_st0, no_counts)
        = Inr (st1, c1) \<and>
      inner_iteration toy_fw (build_env toy_args) (const_image 1 1, [1]) (st1, c1) = Inr (st2, c2) \<and>
      tadd (const_image 1 1) (delta st1) = Inr adv \<and>
      Forward adv \<in> set (trace st2) \<and>
      elems adv = replicate 3072 (1 + epsilon toy_args)) \<and>
   (\<exists>st1 c1 st2 c2 adv.
      inner_iteration toy_fw (build_env toy_args) (const_image 1 0, [1]) (toy_st0, no_counts)
        = Inr (st1, c1) \<and>
      inner_iteration toy_fw (build_env toy_args) (const_image 1 0, [1]) (st1, c1) = Inr (st2, c2) \<and>
      tadd (const_image 1 0) (delta st1) = Inr adv \<and>
      Forward adv \<in> set (trace st2) \<and>
      elems adv = replicate 3072 (- epsilon toy_args))"
proof -
  have u: "\<forall>inputs targets st c st' c'.
      inner_iteration fw e (inputs, targets) (st, c) = Inr (st', c') \<longrightarrow>
      (\<exists>adv d. tadd inputs (delta st) = Inr adv \<and>
         shape adv = shape inputs \<and>
         elems adv = map2 (+) (elems inputs) (elems (delta st)) \<and>
         (let net1 = fw_zero_grad fw (net st);
              (outputs, net2) = fw_forward fw net1 adv;
              loss = fw_cross_entropy fw outputs targets;
              (net3, grad) = fw_backward fw net2 adv targets;
              (opt1, net4) = fw_step fw (optimizer st) net3
          in tadd (delta st) (tscale (env_epsilon e) (tsign grad)) = Inr d \<and>
             st' = st\<lparr>net := net4, optimizer := opt1,
                        delta := tclamp d (- env_epsilon e) (env_epsilon e),
                        trace := trace st @
                          [ZeroGrad, Forward adv, CrossEntropy, Backward, OptimizerStep,
                           SignAscent, Clamp]\<rparr> \<and>
             c' = c\<lparr>train_loss := train_loss c + loss,
                     total := total c + length targets,
                     correct := correct c + eq_count (fw_argmax fw outputs) targets\<rparr>) \<and>
         (elems_between 0 1 inputs \<longrightarrow>
          elems_between (- env_epsilon e) (env_epsilon e) (delta st) \<longrightarrow>
          elems_between (- env_epsilon e) (1 + env_epsilon e) adv))"
  proof (intro allI impI)
    fix inputs targets st c st' c'
    assume r: "inner_iteration fw e (inputs, targets) (st, c) = Inr (st', c')"
    from inner_iteration_dataflow [OF r] obtain adv d where
      a: "tadd inputs (delta st) = Inr adv" and
      df: "(let net1 = fw_zero_grad fw (net st);
              (outputs, net2) = fw_forward fw net1 adv;
              loss = fw_cross_entropy fw outputs targets;
              (net3, grad) = fw_backward fw net2 adv targets;
              (opt1, net4) = fw_step fw (optimizer st) net3
          in tadd (delta st) (tscale (env_epsilon e) (tsign grad)) = Inr d \<and>
             st' = st\<lparr>net := net4, optimizer := opt1,
                        delta := tclamp d (- env_epsilon e) (env_epsilon e),
                        trace := trace st @
                          [ZeroGrad, Forward adv, CrossEntropy, Backward, OptimizerStep,
                           SignAscent, Clamp]\<rparr> \<and>
             c' = c\<lparr>train_loss := train_loss c + loss,
                     total := total c + length targets,
                     correct := correct c + eq_count (fw_argmax fw outputs) targets\<rparr>)"
      by blast
    from a have b: "elems adv = map2 (+) (elems inputs) (elems (delta st))"
      and sh: "shape adv = shape inputs"
      by (auto simp: tadd_def split: if_splits)
    have bd: "elems_between 0 1 inputs \<longrightarrow>
          elems_between (- env_epsilon e) (env_epsilon e) (delta st) \<longrightarrow>
          elems_between (- env_epsilon e) (1 + env_epsilon e) adv"
      using sum_between [OF _ _ b] by blast
    show "\<exists>adv d. tadd inputs (delta st) = Inr adv \<and>
         shape adv = shape inputs \<and>
         elems adv = map2 (+) (elems inputs) (elems (delta st)) \<and>
         (let net1 = fw_zero_grad fw (net st);
              (outputs, net2) = fw_forward fw net1 adv;
              loss = fw_cross_entropy fw outputs targets;
              (net3, grad) = fw_backward fw net2 adv targets;
              (opt1, net4) = fw_step fw (optimizer st) net3
          in tadd (delta st) (tscale (env_epsilon e) (tsign grad)) = Inr d \<and>
             st' = st\<lparr>net := net4, optimizer := opt1,
                        delta := tclamp d (- env_epsilon e) (env_epsilon e),
                        trace := trace st @
                          [ZeroGrad, Forward adv, CrossEntropy, Backward, OptimizerStep,
                           SignAscent, Clamp]\<rparr> \<and>
             c' = c\<lparr>train_loss := train_loss c + loss,
                     total := total c + length targets,
                     correct := correct c + eq_count (fw_argmax fw outputs) targets\<rparr>) \<and>
         (elems_between 0 1 inputs \<longrightarrow>
          elems_between (- env_epsilon e) (env_epsilon e) (delta st) \<longrightarrow>
          elems_between (- env_epsilon e) (1 + env_epsilon e) adv)"
      by (intro exI [of _ adv] exI [of _ d] conjI a sh b df bd)
  qed
  have c: "clip_min adversary = 0 \<and> clip_max adversary = 1 \<and>
   clip_min adversary_50 = 0 \<and> clip_max adversary_50 = 1 \<and>
   clip_min adversary_FGSM = 0 \<and> clip_max adversary_FGSM = 1"
    by (simp add: adversary_def adversary_50_def adversary_FGSM_def)
  have ep: "epsilon toy_args = 8 / 255"
    by (simp add: toy_args_def default_args_def)
  have hi: "\<exists>st1 c1 st2 c2 adv.
      inner_iteration toy_fw (build_env toy_args) (const_image 1 1, [1]) (toy_st0, no_counts)
        = Inr (st1, c1) \<and>
      inner_iteration toy_fw (build_env toy_args) (const_image 1 1, [1]) (st1, c1) = Inr (st2, c2) \<and>
      tadd (const_image 1 1) (delta st1) = Inr adv \<and>
      Forward adv \<in> set (trace st2) \<and>
      elems adv = replicate 3072 (1 + epsilon toy_args)"
    using toy_second_forward [of 1] by (simp add: ep)
  have lo: "\<exists>st1 c1 st2 c2 adv.
      inner_iteration toy_fw (build_env toy_args) (const_image 1 0, [1]) (toy_st0, no_counts)
        = Inr (st1, c1) \<and>
      inner_iteration toy_fw (build_env toy_args) (const_image 1 0, [1]) (st1, c1) = Inr (st2, c2) \<and>
      tadd (const_image 1 0) (delta st1) = Inr adv \<and>
      Forward adv \<in> set (trace st2) \<and>
      elems adv = replicate 3072 (- epsilon toy_args)"
    using toy_second_forward [of 0] by (simp add: ep)
  show ?thesis by (intro conjI u hi lo c [THEN conjunct1] c [THEN conjunct2, THEN conjunct1]
      c [THEN conjunct2, THEN conjunct2, THEN conjunct1]
      c [THEN conjunct2, THEN conjunct2, THEN conjunct2, THEN conjunct1]
      c [THEN conjunct2, THEN conjunct2, THEN conjunct2, THEN conjunct2, THEN conjunct1]
      c [THEN conjunct2, THEN conjunct2, THEN conjunct2, THEN conjunct2, THEN conjunct2])
qed

theorem training_input_witness:
  "\<exists>st' c' adv.
     inner_iteration toy_fw (build_env toy_args) (const_image 1 1, [1]) (toy_st0, no_counts)
       = Inr (st', c') \<and>
     elems_between 0 1 (const_image 1 1) \<and>
     elems_between (- (8 / 255)) (8 / 255) (delta toy_st0) \<and>
     tadd (const_image 1 1) (delta toy_st0) = Inr adv \<and>
     elems adv = map2 (+) (elems (const_image 1 1)) (elems (delta toy_st0)) \<and>
     elems_between (- (8 / 255)) (1 + 8 / 255) adv"
proof -
  have h: "shape (const_image 1 1) = shape (delta toy_st0)"
    by (simp add: const_image_def toy_st0_def zeros_def)
  from inner_iteration_step [OF h toy_grad_shape, of "build_env toy_args" "[1]" no_counts]
  obtain st' c' where
    r: "inner_iteration toy_fw (build_env toy_args) (const_image 1 1, [1]) (toy_st0, no_counts)
        = Inr (st', c')"
    by blast
  have ee: "env_epsilon (build_env toy_args) = 8 / 255"
    by (simp add: build_env_def toy_args_def default_args_def)
  have i: "elems_between 0 1 (const_image 1 1)"
    by (simp add: elems_between_def const_image_def list_all_iff)
  have d: "elems_between (- (8 / 255)) (8 / 255) (delta toy_st0)"
    by (simp add: elems_between_def toy_st0_def zeros_def list_all_iff)
  from training_input_is_unclamped_sum [of toy_fw "build_env toy_args"]
  have "\<forall>inputs targets st c st' c'.
      inner_iteration toy_fw (build_env toy_args) (inputs, targets) (st, c) = Inr (st', c') \<longrightarrow>
      (\<exists>adv. tadd inputs (delta st) = Inr adv \<and>
         elems adv = map2 (+) (elems inputs) (elems (delta st)) \<and>
         (elems_between 0 1 inputs \<longrightarrow>
          elems_between (- env_epsilon (build_env toy_args)) (env_epsilon (build_env toy_args)) (delta st) \<longrightarrow>
          elems_between (- env_epsilon (build_env toy_args)) (1 + env_epsilon (build_env toy_args)) adv))"
    by blast
  with r obtain adv where
    a: "tadd (const_image 1 1) (delta toy_st0) = Inr adv" and
    m: "elems adv = map2 (+) (elems (const_image 1 1)) (elems (delta toy_st0))" and
    b: "elems_between 0 1 (const_image 1 1) \<longrightarrow>
          elems_between (- env_epsilon (build_env toy_args)) (env_epsilon (build_env toy_args))
            (delta toy_st0) \<longrightarrow>
          elems_between (- env_epsilon (build_env toy_args))
            (1 + env_epsilon (build_env toy_args)) adv"
    by blast
  have "elems_between (- (8 / 255)) (1 + 8 / 255) adv"
    using b i d by (simp add: ee)
  then show ?thesis
    using r i d a m by blast
qed

section \<open>Explicit checks\<close>















end
